theory Spec2Isabelle
  imports Main
begin

section \<open>JavaScript values and built-ins used by lib/ldp.js\<close>

text \<open>
  A JavaScript string is modelled as an Isabelle \<open>string\<close> holding its UTF-8 bytes.
  The characters the source inspects (\<open>/\<close>, \<open>|\<close>, \<open>:\<close>, \<open>-\<close>, \<open>%\<close>, digits) are ASCII, and an
  ASCII byte never occurs inside a multi-byte UTF-8 sequence, so searching, splitting,
  prefix and suffix tests agree with the UTF-16 string of the source.
  A value that may be \<open>undefined\<close> is an \<open>option\<close>; a JavaScript number is an integer or
  \<open>NaN\<close> (exact for the safe integers, which is what file sizes and offsets are).
\<close>

datatype jsnum = Num int | NaN

fun num_truthy :: "jsnum \<Rightarrow> bool" where
  "num_truthy NaN = False"
| "num_truthy (Num n) = (n \<noteq> 0)"

fun num_add :: "jsnum \<Rightarrow> jsnum \<Rightarrow> jsnum" where
  "num_add (Num a) (Num b) = Num (a + b)"
| "num_add _ _ = NaN"

fun num_sub :: "jsnum \<Rightarrow> jsnum \<Rightarrow> jsnum" where
  "num_sub (Num a) (Num b) = Num (a - b)"
| "num_sub _ _ = NaN"

text \<open>Truthiness of a possibly undefined string: \<open>undefined\<close> and \<open>''\<close> are falsy.\<close>

fun str_truthy :: "string option \<Rightarrow> bool" where
  "str_truthy None = False"
| "str_truthy (Some s) = (s \<noteq> [])"

text \<open>Truthiness of a possibly undefined number: \<open>undefined\<close>, \<open>0\<close> and \<open>NaN\<close> are falsy.\<close>

fun optnum_truthy :: "jsnum option \<Rightarrow> bool" where
  "optnum_truthy None = False"
| "optnum_truthy (Some n) = num_truthy n"

text \<open>String conversion in a concatenation (\<open>'' + x\<close>).\<close>

fun js_string :: "string option \<Rightarrow> string" where
  "js_string None = ''undefined''"
| "js_string (Some s) = s"

definition digit_char :: "nat \<Rightarrow> char" where
  "digit_char d = (''0123456789ABCDEF'' ! d)"

fun show_nat :: "nat \<Rightarrow> string" where
  "show_nat n = (if n < 10 then [digit_char n] else show_nat (n div 10) @ [digit_char (n mod 10)])"

declare show_nat.simps [simp del]

fun num_string :: "jsnum \<Rightarrow> string" where
  "num_string NaN = ''NaN''"
| "num_string (Num n) = (if n < 0 then CHR ''-'' # show_nat (nat (- n)) else show_nat (nat n))"

definition endsWith :: "string \<Rightarrow> string \<Rightarrow> bool" where
  "endsWith s suf = (length suf \<le> length s \<and> drop (length s - length suf) s = suf)"

text \<open>\<open>s.replace(/pat/, '')\<close> for a literal pattern: the first occurrence is removed.\<close>

fun remove_first :: "string \<Rightarrow> string \<Rightarrow> string" where
  "remove_first pat [] = []"
| "remove_first pat (c # cs) =
     (if take (length pat) (c # cs) = pat then drop (length pat) (c # cs)
      else c # remove_first pat cs)"

text \<open>\<open>s.split(sep)\<close> for a one-character separator; the result is never empty.\<close>

fun split_on :: "char \<Rightarrow> string \<Rightarrow> string list" where
  "split_on sep [] = [[]]"
| "split_on sep (c # cs) =
     (if c = sep then [] # split_on sep cs
      else (case split_on sep cs of
              [] \<Rightarrow> [[c]]
            | p # ps \<Rightarrow> (c # p) # ps))"

text \<open>Array indexing \<open>parts[i]\<close>: \<open>undefined\<close> past the end.\<close>

definition js_index :: "'a list \<Rightarrow> nat \<Rightarrow> 'a option" where
  "js_index xs i = (if i < length xs then Some (xs ! i) else None)"

subsection \<open>parseInt(s, 10)\<close>

definition is_digit :: "char \<Rightarrow> bool" where
  "is_digit c = (48 \<le> (of_char c :: nat) \<and> (of_char c :: nat) \<le> 57)"

definition digit_value :: "char \<Rightarrow> nat" where
  "digit_value c = of_char c - 48"

text \<open>
  Leading white space is skipped: the ASCII white space and line terminators, and the
  UTF-8 encodings of U+00A0, U+1680, U+2000 to U+200A, U+2028, U+2029, U+202F, U+205F,
  U+3000 and U+FEFF.
\<close>

fun skip_space :: "string \<Rightarrow> string" where
  "skip_space [] = []"
| "skip_space (c # cs) =
     (let n = (of_char c :: nat); bs = map of_char (take 2 cs) :: nat list in
      if n = 9 \<or> n = 10 \<or> n = 11 \<or> n = 12 \<or> n = 13 \<or> n = 32 then skip_space cs
      else if n = 194 \<and> take 1 bs = [160] then skip_space (drop 1 cs)
      else if (n = 225 \<and> bs = [154, 128])
            \<or> (n = 226 \<and> length bs = 2 \<and> hd bs = 128
                 \<and> (last bs \<in> {128 .. 138} \<or> last bs = 168 \<or> last bs = 169 \<or> last bs = 175))
            \<or> (n = 226 \<and> bs = [129, 159])
            \<or> (n = 227 \<and> bs = [128, 128])
            \<or> (n = 239 \<and> bs = [187, 191]) then skip_space (drop 2 cs)
      else c # cs)"

definition digits_value :: "string \<Rightarrow> nat" where
  "digits_value ds = foldl (\<lambda>acc c. 10 * acc + digit_value c) 0 ds"

definition parseInt :: "string \<Rightarrow> jsnum" where
  "parseInt s =
     (let t = skip_space s;
          neg = (take 1 t = ''-'');
          u = (if take 1 t = ''-'' \<or> take 1 t = ''+'' then drop 1 t else t);
          ds = takeWhile is_digit u
      in if ds = [] then NaN
         else if neg then Num (- int (digits_value ds)) else Num (int (digits_value ds)))"

subsection \<open>path.join (POSIX)\<close>

fun intercalate :: "string \<Rightarrow> string list \<Rightarrow> string" where
  "intercalate sep [] = []"
| "intercalate sep [x] = x"
| "intercalate sep (x # y # zs) = x @ sep @ intercalate sep (y # zs)"

text \<open>
  The segments of a path are normalised left to right: empty segments and \<open>.\<close> are
  dropped, \<open>..\<close> removes the segment before it (or is kept, in a relative path, when there
  is none to remove).
\<close>

fun normalize_segments :: "bool \<Rightarrow> string list \<Rightarrow> string list \<Rightarrow> string list" where
  "normalize_segments allowAboveRoot res [] = res"
| "normalize_segments allowAboveRoot res (p # ps) =
     (if p = [] \<or> p = ''.'' then normalize_segments allowAboveRoot res ps
      else if p = ''..'' then
        (if res \<noteq> [] \<and> last res \<noteq> ''..'' then normalize_segments allowAboveRoot (butlast res) ps
         else if allowAboveRoot then normalize_segments allowAboveRoot (res @ [''..'']) ps
         else normalize_segments allowAboveRoot res ps)
      else normalize_segments allowAboveRoot (res @ [p]) ps)"

definition path_normalize :: "string \<Rightarrow> string" where
  "path_normalize p =
     (if p = [] then ''.''
      else
        (let isAbsolute = (hd p = CHR ''/'');
             trailingSeparator = (last p = CHR ''/'');
             q = intercalate ''/'' (normalize_segments (\<not> isAbsolute) [] (split_on CHR ''/'' p))
         in if q = [] then (if isAbsolute then ''/'' else if trailingSeparator then ''./'' else ''.'')
            else (if isAbsolute then ''/'' else []) @ q @ (if trailingSeparator then ''/'' else [])))"

definition path_join :: "string \<Rightarrow> string \<Rightarrow> string" where
  "path_join a b =
     (if a = [] \<and> b = [] then ''.''
      else if a = [] then path_normalize b
      else if b = [] then path_normalize a
      else path_normalize (a @ ''/'' @ b))"

subsection \<open>decodeURIComponent and encodeURIComponent\<close>

datatype js_exception = URIError | RangeError

definition hex_digit :: "char \<Rightarrow> nat option" where
  "hex_digit c =
     (let n = (of_char c :: nat) in
      if 48 \<le> n \<and> n \<le> 57 then Some (n - 48)
      else if 65 \<le> n \<and> n \<le> 70 then Some (n - 55)
      else if 97 \<le> n \<and> n \<le> 102 then Some (n - 87)
      else None)"

text \<open>An escape \<open>%XX\<close> at the front of the string: its byte and the rest.\<close>

fun escape_byte :: "string \<Rightarrow> (nat \<times> string) option" where
  "escape_byte (p # h # l # rest) =
     (if p = CHR ''%'' then
        (case hex_digit h of
           None \<Rightarrow> None
         | Some a \<Rightarrow> (case hex_digit l of None \<Rightarrow> None | Some b \<Rightarrow> Some (16 * a + b, rest)))
      else None)"
| "escape_byte _ = None"

text \<open>The \<open>k\<close> escapes that continue a multi-byte sequence, each of the form 10xxxxxx.\<close>

fun continuation_bytes :: "nat \<Rightarrow> string \<Rightarrow> (nat list \<times> string) option" where
  "continuation_bytes 0 s = Some ([], s)"
| "continuation_bytes (Suc k) s =
     (case escape_byte s of
        None \<Rightarrow> None
      | Some (b, rest) \<Rightarrow>
          if 128 \<le> b \<and> b < 192 then
            (case continuation_bytes k rest of
               None \<Rightarrow> None
             | Some (bs, rest') \<Rightarrow> Some (b # bs, rest'))
          else None)"

text \<open>The length of the UTF-8 sequence a leading byte announces; none for 10xxxxxx and 11111xxx.\<close>

definition utf8_length :: "nat \<Rightarrow> nat option" where
  "utf8_length b =
     (if b < 128 then Some 1
      else if 192 \<le> b \<and> b < 224 then Some 2
      else if 224 \<le> b \<and> b < 240 then Some 3
      else if 240 \<le> b \<and> b < 248 then Some 4
      else None)"

text \<open>
  Whether the bytes (a leading byte and its continuation bytes) encode a code point:
  no overlong form, no surrogate, nothing above U+10FFFF.
\<close>

fun valid_utf8 :: "nat list \<Rightarrow> bool" where
  "valid_utf8 [b0] = (b0 < 128)"
| "valid_utf8 [b0, b1] = (194 \<le> b0)"
| "valid_utf8 [b0, b1, b2] =
     (if b0 = 224 then 160 \<le> b1 else if b0 = 237 then b1 < 160 else True)"
| "valid_utf8 [b0, b1, b2, b3] =
     (if b0 = 240 then 144 \<le> b1 else if b0 = 244 then b1 < 144 else b0 < 244)"
| "valid_utf8 _ = False"

lemma escape_byte_shorter: "escape_byte s = Some (b, rest) \<Longrightarrow> length rest < length s"
  by (cases s rule: escape_byte.cases) (auto split: if_splits option.splits)

lemma continuation_bytes_shorter:
  "continuation_bytes k s = Some (bs, rest) \<Longrightarrow> length rest \<le> length s"
proof (induction k arbitrary: s bs rest)
  case 0
  then show ?case by simp
next
  case (Suc k)
  then show ?case
    by (fastforce split: option.splits if_splits prod.splits dest: escape_byte_shorter)
qed

function decodeURIComponent :: "string \<Rightarrow> js_exception + string" where
  "decodeURIComponent [] = Inr []"
| "decodeURIComponent (c # cs) =
     (if c \<noteq> CHR ''%'' then
        (case decodeURIComponent cs of Inl e \<Rightarrow> Inl e | Inr t \<Rightarrow> Inr (c # t))
      else
        (case escape_byte (c # cs) of
           None \<Rightarrow> Inl URIError
         | Some (b, rest) \<Rightarrow>
             (case utf8_length b of
                None \<Rightarrow> Inl URIError
              | Some n \<Rightarrow>
                  (case continuation_bytes (n - 1) rest of
                     None \<Rightarrow> Inl URIError
                   | Some (bs, rest') \<Rightarrow>
                       if valid_utf8 (b # bs) then
                         (case decodeURIComponent rest' of
                            Inl e \<Rightarrow> Inl e
                          | Inr t \<Rightarrow> Inr (map char_of (b # bs) @ t))
                       else Inl URIError))))"
  by pat_completeness auto
termination
proof (relation "measure length")
  show "wf (measure length)" by simp
next
  fix c :: char and cs :: string
  show "(cs, c # cs) \<in> measure length" by simp
next
  fix c :: char and cs :: string and x2 b rest n x2b bs rest'
  assume "escape_byte (c # cs) = Some x2" "(b, rest) = x2"
    "continuation_bytes (n - 1) rest = Some x2b" "(bs, rest') = x2b"
  then have "length rest < length (c # cs)" "length rest' \<le> length rest"
    using escape_byte_shorter [of "c # cs" b rest] continuation_bytes_shorter [of "n - 1" rest bs rest']
    by auto
  then show "(rest', c # cs) \<in> measure length" by simp
qed

definition uri_unreserved :: "char \<Rightarrow> bool" where
  "uri_unreserved c =
     (let n = (of_char c :: nat) in
      (65 \<le> n \<and> n \<le> 90) \<or> (97 \<le> n \<and> n \<le> 122) \<or> (48 \<le> n \<and> n \<le> 57)
      \<or> n = 45 \<or> n = 95 \<or> n = 46 \<or> n = 33 \<or> n = 126 \<or> n = 42 \<or> n = 39 \<or> n = 40 \<or> n = 41)"

definition encodeURIComponent :: "string \<Rightarrow> string" where
  "encodeURIComponent s =
     concat (map (\<lambda>c. if uri_unreserved c then [c]
                      else [CHR ''%'', digit_char (of_char c div 16), digit_char (of_char c mod 16)]) s)"

section \<open>Errors\<close>

text \<open>The error object a Node filesystem call fails with: its code and its message.\<close>

datatype errno = ENOENT | EACCES | EISDIR | ENOTDIR | EIO

datatype sys_error = SysError errno string

fun sys_code :: "sys_error \<Rightarrow> errno" where
  "sys_code (SysError c m) = c"

text \<open>String conversion of an error object in a concatenation (\<open>'' + err\<close>).\<close>

fun sys_string :: "sys_error \<Rightarrow> string" where
  "sys_string (SysError c m) = ''Error: '' @ m"

text \<open>
  What a call can end with besides its result: an error handed to the callback
  (\<open>HTTPError\<close>), or a JavaScript exception that escapes the call (\<open>Uncaught\<close>), in which
  case the callback is not invoked.
  The kind of an \<open>HTTPError\<close> is the HTTP status the source writes (\<open>error(500, ...)\<close>), or
  the spec's \<open>NotFound\<close> or \<open>IOError\<close> where the source wraps an error object.
\<close>

datatype error_kind = Status nat | NotFound | IOError

datatype error = HTTPError error_kind string | Uncaught js_exception

text \<open>\<open>error(status, message)\<close> with a numeric status, as written in lib/ldp.js.\<close>

definition error_status :: "nat \<Rightarrow> string \<Rightarrow> error" where
  "error_status n msg = HTTPError (Status n) msg"

text \<open>
  The codes with which a filesystem call reports that nothing is at the path: no such
  entry (ENOENT), or a component of the path is not a directory (ENOTDIR).
\<close>

definition target_absent :: "sys_error \<Rightarrow> bool" where
  "target_absent err = (sys_code err = ENOENT \<or> sys_code err = ENOTDIR)"

text \<open>
  Modelled from the spec: lib/http-error.js is not among the sources. \<open>error(err, message)\<close>
  on the error object of a filesystem call "surfaces the underlying filesystem error as a
  typed NotFound/IOError" (spec 4.2): \<open>NotFound\<close> for a "stat or read target absent",
  \<open>IOError\<close> for a "filesystem failure other than absence" (spec 7), carrying the message.
\<close>

definition error_sys :: "sys_error \<Rightarrow> string \<Rightarrow> error" where
  "error_sys err msg = HTTPError (if target_absent err then NotFound else IOError) msg"

text \<open>
  Modelled from the spec: lib/http-error.js is not among the sources. lib/ldp.js calls
  \<open>error(err, message)\<close> on an error that is already typed in two places: in \<open>get\<close>, on
  the error of \<open>stat\<close>, under the comment "File does not exist" and with the message
  "Can't find file requested"; and in \<open>readContainerMeta\<close>, on the error of the read of
  the metadata file. The spec gives the failure that leaves \<open>get\<close> there one kind:
  "stat(path) -> attributes | NotFound" (spec 4.2) and, of \<open>get\<close>, "If the target does
  not exist, fails with NotFound" (spec 4.5). So the result is \<open>NotFound\<close>, whatever the
  kind of the error wrapped, carrying the new message; \<open>get\<close> does not look at the kind
  of the error of \<open>readContainerMeta\<close>.
\<close>

fun error_wrap :: "error \<Rightarrow> string \<Rightarrow> error" where
  "error_wrap (HTTPError k m) msg = HTTPError NotFound msg"
| "error_wrap (Uncaught x) msg = Uncaught x"

fun is_NotFound :: "error \<Rightarrow> bool" where
  "is_NotFound (HTTPError k m) = (k = NotFound)"
| "is_NotFound (Uncaught x) = False"

text \<open>The error taxonomy of spec 7, for the errors lib/ldp.js builds itself.\<close>

definition BadSlug :: error where
  "BadSlug = error_status 400 ''The name of new file POSTed may not contain : | or /''"

definition CannotParseContainer :: error where
  "CannotParseContainer = error_status 500 ''Can't parse container''"

definition CannotListContainer :: error where
  "CannotListContainer = error_status 500 ''Can't list container''"

definition CannotSerializeContainer :: error where
  "CannotSerializeContainer = error_status 500 ''Can't serialize container''"

section \<open>The filesystem and the collaborators\<close>

record stats =
  isDirectory :: bool
  fileSize :: nat
  mtime :: nat

text \<open>
  The filesystem as one request observes it: what \<open>fs.stat\<close>, \<open>fs.readFile\<close> (utf8) and
  opening a read stream answer for each file name. The three observations are
  independent, so that a name can be listed and fail to stat, or stat and fail to open.
\<close>

record filesystem =
  fs_stat :: "string \<Rightarrow> sys_error + stats"
  fs_readFile :: "string \<Rightarrow> sys_error + string"
  fs_open :: "string \<Rightarrow> sys_error + string"

type_synonym triple = "string \<times> string \<times> string"
type_synonym rdf_graph = "triple list"

text \<open>
  The libraries and the modules of the repository that lib/ldp.js calls and that are
  not among the sources, as parameters:
  \<^item> \<open>uriToFilename\<close>: \<open>utils.uriToFilename(uri, root)\<close>;
  \<^item> \<open>mime_lookup\<close>: \<open>mime.lookup(filename)\<close>, \<open>None\<close> for \<open>false\<close>;
  \<^item> \<open>uuid_v1\<close>: the result of the n-th call of \<open>uuid.v1()\<close>;
  \<^item> \<open>rdf_parse\<close>: \<open>$rdf.parse(data, graph, base, contentType)\<close>, the graph after the call, or
    \<open>None\<close> when it throws;
  \<^item> \<open>serialize\<close>: \<open>utils.serialize(graph, base, contentType, cb)\<close>, \<open>None\<close> for an error;
  \<^item> \<open>parse\<close>: \<open>utils.parse(body, baseUri, contentType, cb)\<close>;
  \<^item> \<open>addContainerStats\<close> and \<open>readdir\<close> of lib/ldp-container.js;
  \<^item> \<open>memberDescription\<close>: the triples that describe a member (its URI, its entry name
    and its stats), for \<open>addFile\<close> of lib/ldp-container.js;
  \<^item> \<open>store_put\<close>: \<open>store.put(host, path, stream)\<close> of lib/ldp-file-store.js: whether the
    promise rejects, and the filesystem after the write.
\<close>

record collaborators =
  uriToFilename :: "string \<Rightarrow> string \<Rightarrow> string"
  mime_lookup :: "string \<Rightarrow> string option"
  uuid_v1 :: "nat \<Rightarrow> string"
  rdf_parse :: "string \<Rightarrow> rdf_graph \<Rightarrow> string \<Rightarrow> string \<Rightarrow> rdf_graph option"
  serialize :: "rdf_graph \<Rightarrow> string \<Rightarrow> string \<Rightarrow> string option"
  parse :: "string \<Rightarrow> string option \<Rightarrow> string option \<Rightarrow> error + rdf_graph"
  addContainerStats :: "filesystem \<Rightarrow> string \<Rightarrow> string \<Rightarrow> rdf_graph \<Rightarrow> error + rdf_graph"
  readdir :: "filesystem \<Rightarrow> string \<Rightarrow> error + string list"
  memberDescription :: "string \<Rightarrow> string \<Rightarrow> stats \<Rightarrow> rdf_graph"
  store_put :: "filesystem \<Rightarrow> string \<Rightarrow> string \<Rightarrow> string \<Rightarrow> error option \<times> filesystem"

section \<open>The LDP object\<close>

record ldp_options =
  opt_root :: "string option"
  opt_suffixAcl :: "string option"
  opt_suffixMeta :: "string option"
  opt_idp :: bool

record ldp =
  root :: string
  suffixAcl :: string
  suffixMeta :: string
  turtleExtensions :: "string list"
  idp :: bool

definition DEFAULT_CONTENT_TYPE :: string where
  "DEFAULT_CONTENT_TYPE = ''text/turtle''"

text \<open>\<open>a || b\<close> on a possibly undefined string.\<close>

definition str_or :: "string option \<Rightarrow> string \<Rightarrow> string" where
  "str_or a b = (case a of None \<Rightarrow> b | Some s \<Rightarrow> if s = [] then b else s)"

text \<open>
  The constructor, for the fields the operations below read: the two suffixes, the list
  of turtle extensions, the root with its trailing slash, and whether an identity
  provider (multi-tenancy) is configured. \<open>cwd\<close> is \<open>process.cwd()\<close>.
\<close>

definition LDP :: "string \<Rightarrow> ldp_options \<Rightarrow> ldp" where
  "LDP cwd options =
     (let sAcl = str_or (opt_suffixAcl options) ''.acl'';
          sMeta = str_or (opt_suffixMeta options) ''.meta'';
          r = str_or (opt_root options) cwd
      in \<lparr> root = (if \<not> endsWith r ''/'' then r @ ''/'' else r),
           suffixAcl = sAcl,
           suffixMeta = sMeta,
           turtleExtensions = [''.ttl'', sAcl, sMeta],
           idp = opt_idp options \<rparr>)"

section \<open>Reading\<close>

text \<open>\<open>ldp.stat\<close>, \<open>ldp.readFile\<close> and \<open>ldp.readContainerMeta\<close>.\<close>

definition stat :: "filesystem \<Rightarrow> string \<Rightarrow> error + stats" where
  "stat fs file =
     (case fs_stat fs file of
        Inl err \<Rightarrow> Inl (error_sys err ''Can't read metadata'')
      | Inr st \<Rightarrow> Inr st)"

definition readFile :: "filesystem \<Rightarrow> string \<Rightarrow> error + string" where
  "readFile fs filename =
     (case fs_readFile fs filename of
        Inl err \<Rightarrow> Inl (error_sys err ''Can't read file'')
      | Inr data \<Rightarrow> Inr data)"

definition readContainerMeta :: "ldp \<Rightarrow> filesystem \<Rightarrow> string \<Rightarrow> error + string" where
  "readContainerMeta l fs directory =
     (let directory' = (if \<not> endsWith directory ''/'' then directory @ ''/'' else directory)
      in case readFile fs (directory' @ suffixMeta l) of
           Inl err \<Rightarrow> Inl (error_wrap err ''Can't read meta file'')
         | Inr data \<Rightarrow> Inr data)"

text \<open>
  \<open>fs.createReadStream(filename, {start, end})\<close>: the constructor throws a RangeError
  when the bounds are no valid range; otherwise the stream emits \<open>error\<close>, or \<open>open\<close>
  and then the bytes \<open>start\<close> to \<open>end\<close>, both included (what the file has of them).
\<close>

datatype read_stream = StreamThrows js_exception | StreamError sys_error | StreamOpen string

definition fs_createReadStream :: "filesystem \<Rightarrow> string \<Rightarrow> (int \<times> int) option \<Rightarrow> read_stream" where
  "fs_createReadStream fs filename bounds =
     (case bounds of
        None \<Rightarrow>
          (case fs_open fs filename of
             Inl err \<Rightarrow> StreamError err
           | Inr bytes \<Rightarrow> StreamOpen bytes)
      | Some (s, e) \<Rightarrow>
          if s < 0 \<or> e < 0 \<or> e < s then StreamThrows RangeError
          else
            (case fs_open fs filename of
               Inl err \<Rightarrow> StreamError err
             | Inr bytes \<Rightarrow> StreamOpen (take (nat (e - s + 1)) (drop (nat s) bytes))))"

text \<open>
  \<open>ldp.createReadStream(filename, start, end)\<close>: the range is used only when
  \<open>start && end\<close> holds, that is when both are numbers other than 0 and NaN.
\<close>

definition createReadStream :: "filesystem \<Rightarrow> string \<Rightarrow> jsnum option \<Rightarrow> jsnum option \<Rightarrow> read_stream" where
  "createReadStream fs filename start end' =
     (if optnum_truthy start \<and> optnum_truthy end' then
        (case (start, end') of
           (Some (Num s), Some (Num e)) \<Rightarrow> fs_createReadStream fs filename (Some (s, e))
         | _ \<Rightarrow> fs_createReadStream fs filename None)
      else fs_createReadStream fs filename None)"

section \<open>Container listing\<close>

text \<open>
  Modelled from the spec: \<open>addFile\<close> of lib/ldp-container.js is not among the sources.
  Spec 4.3, step 4: a description of the member (kind, size, modification time,
  content-type hint) is appended to the graph; "any entry whose stat fails is simply
  omitted, not reported as a hard failure of the whole listing". The entry is the file
  \<open>file\<close> of the directory \<open>filename\<close>, stat'ed at \<open>path.join(filename, file)\<close>;
  \<open>fileUri\<close> is its member URI.
\<close>

definition addFile ::
  "ldp \<Rightarrow> collaborators \<Rightarrow> filesystem \<Rightarrow> rdf_graph \<Rightarrow> string \<Rightarrow> string \<Rightarrow> string option \<Rightarrow> string \<Rightarrow> string
     \<Rightarrow> error + rdf_graph" where
  "addFile l co fs resourceGraph reqUri fileUri uri filename file =
     (case fs_stat fs (path_join filename file) of
        Inl err \<Rightarrow> Inr resourceGraph
      | Inr st \<Rightarrow> Inr (resourceGraph @ memberDescription co fileUri file st))"

text \<open>
  \<open>async.each(files, iteratee, next)\<close> with the iteratee of \<open>listContainer\<close>: every entry
  is handed to \<open>addFile\<close> with its member URI; the first error an entry reports ends the
  iteration with that error. The entries are taken in the order of the listing (the
  source starts them together; the triples added are the same).
\<close>

fun each_addFile ::
  "ldp \<Rightarrow> collaborators \<Rightarrow> filesystem \<Rightarrow> string \<Rightarrow> string option \<Rightarrow> string \<Rightarrow> rdf_graph \<Rightarrow> string list
     \<Rightarrow> error + rdf_graph" where
  "each_addFile l co fs reqUri uri filename resourceGraph [] = Inr resourceGraph"
| "each_addFile l co fs reqUri uri filename resourceGraph (file # files) =
     (let fileUri = reqUri @ encodeURIComponent file
      in case addFile l co fs resourceGraph reqUri fileUri uri filename file of
           Inl err \<Rightarrow> Inl err
         | Inr g \<Rightarrow> each_addFile l co fs reqUri uri filename g files)"

text \<open>The three steps of the \<open>async.waterfall\<close> of \<open>listContainer\<close>.\<close>

definition waterfall_listing ::
  "ldp \<Rightarrow> collaborators \<Rightarrow> filesystem \<Rightarrow> string \<Rightarrow> string \<Rightarrow> string option \<Rightarrow> rdf_graph \<Rightarrow> error + rdf_graph" where
  "waterfall_listing l co fs filename reqUri uri resourceGraph =
     (case addContainerStats co fs reqUri filename resourceGraph of
        Inl err \<Rightarrow> Inl err
      | Inr g \<Rightarrow>
          (case readdir co fs filename of
             Inl err \<Rightarrow> Inl err
           | Inr files \<Rightarrow> each_addFile l co fs reqUri uri filename g files))"

definition listContainer ::
  "ldp \<Rightarrow> collaborators \<Rightarrow> filesystem \<Rightarrow> string \<Rightarrow> string \<Rightarrow> string option \<Rightarrow> string \<Rightarrow> string option
     \<Rightarrow> error + string" where
  "listContainer l co fs filename reqUri uri containerData contentType =
     (case rdf_parse co containerData [] reqUri ''text/turtle'' of
        None \<Rightarrow> Inl (error_status 500 ''Can't parse container'')
      | Some resourceGraph \<Rightarrow>
          (case waterfall_listing l co fs filename reqUri uri resourceGraph of
             Inl err \<Rightarrow> Inl (error_status 500 ''Can't list container'')
           | Inr g \<Rightarrow>
               (case serialize co g reqUri ''text/turtle'' of
                  None \<Rightarrow> Inl (error_status 500 ''Can't serialize container'')
                | Some result \<Rightarrow> Inr result)))"

section \<open>get, exists and graph\<close>

record get_options =
  hostname :: string
  path :: string
  baseUri :: "string option"
  includeBody :: bool
  possibleRDFType :: "string option"
  rangeHeader :: "string option"

datatype stream_value = StatsObject stats | ByteStream string

record get_result =
  stream :: stream_value
  contentType :: "string option"
  container :: bool
  contentRange :: "string option"
  chunksize :: "jsnum option"

text \<open>
  Modelled from the spec: \<open>utils.hasSuffix\<close> is not among the sources. The file name ends
  in one of the suffixes (spec 3 and 6: files with a \<open>.ttl\<close> suffix, the metadata suffix or
  the ACL suffix).
\<close>

definition hasSuffix :: "string \<Rightarrow> string list \<Rightarrow> bool" where
  "hasSuffix filename suffixes = list_ex (endsWith filename) suffixes"

text \<open>The content type computed when the stream of a plain resource opens.\<close>

definition computed_contentType :: "ldp \<Rightarrow> collaborators \<Rightarrow> string \<Rightarrow> string" where
  "computed_contentType l co filename =
     (let contentType = str_or (mime_lookup co filename) DEFAULT_CONTENT_TYPE
      in if hasSuffix filename (turtleExtensions l) then ''text/turtle'' else contentType)"

text \<open>
  The bookkeeping of the range branch: \<open>start\<close>, \<open>end\<close>, \<open>chunksize\<close> and \<open>contentRange\<close>
  from the header value and the size of the file.
\<close>

definition range_start :: "string \<Rightarrow> jsnum" where
  "range_start r = parseInt (js_string (js_index (split_on CHR ''-'' (remove_first ''bytes='' r)) 0))"

definition range_end :: "string \<Rightarrow> nat \<Rightarrow> jsnum" where
  "range_end r total' =
     (let partialend = js_index (split_on CHR ''-'' (remove_first ''bytes='' r)) 1
      in if str_truthy partialend then parseInt (js_string partialend) else Num (int total' - 1))"

definition range_chunksize :: "string \<Rightarrow> nat \<Rightarrow> jsnum" where
  "range_chunksize r total' = num_add (num_sub (range_end r total') (range_start r)) (Num 1)"

definition range_contentRange :: "string \<Rightarrow> nat \<Rightarrow> string" where
  "range_contentRange r total' =
     ''bytes '' @ num_string (range_start r) @ ''-'' @ num_string (range_end r total')
       @ ''/'' @ show_nat total'"

text \<open>
  The file a request path names: \<open>utils.uriToFilename(reqPath, root)\<close>, where the root is
  \<open>ldp.root\<close>, or \<open>ldp.root + host + '/'\<close> when an identity provider is configured
  (\<open>get\<close> and \<open>graph\<close> compute it alike).
\<close>

definition request_filename :: "ldp \<Rightarrow> collaborators \<Rightarrow> string \<Rightarrow> string \<Rightarrow> string" where
  "request_filename l co host reqPath =
     (let root' = (if \<not> idp l then root l else root l @ host @ ''/'')
      in uriToFilename co reqPath root')"

text \<open>
  \<open>get\<close>. The size \<open>fs.statSync(filename).size\<close> is the size of the stats already read:
  the filesystem is one snapshot.
\<close>

definition get :: "ldp \<Rightarrow> collaborators \<Rightarrow> filesystem \<Rightarrow> get_options \<Rightarrow> error + get_result" where
  "get l co fs options =
     (let host = hostname options;
          reqPath = path options;
          filename = request_filename l co host reqPath
      in case stat fs filename of
           Inl err \<Rightarrow> Inl (error_wrap err (''Can't find file requested: '' @ filename))
         | Inr st \<Rightarrow>
             if \<not> includeBody options then
               Inr \<lparr> stream = StatsObject st, contentType = possibleRDFType options,
                     container = isDirectory st, contentRange = None, chunksize = None \<rparr>
             else if isDirectory st then
               (let metaFile = (case readContainerMeta l fs filename of
                                  Inl err \<Rightarrow> []
                                | Inr data \<Rightarrow> data);
                    absContainerUri = js_string (baseUri options) @ reqPath
                in case listContainer l co fs filename absContainerUri (baseUri options) metaFile
                          (possibleRDFType options) of
                     Inl err \<Rightarrow> Inl err
                   | Inr data \<Rightarrow>
                       Inr \<lparr> stream = ByteStream data, contentType = Some ''text/turtle'',
                             container = True, contentRange = None, chunksize = None \<rparr>)
             else
               (let r = rangeHeader options;
                    ranged = str_truthy r;
                    total' = fileSize st;
                    start = (if ranged then Some (range_start (js_string r)) else None);
                    end' = (if ranged then Some (range_end (js_string r) total') else None);
                    chunksize' = (if ranged then Some (range_chunksize (js_string r) total') else None);
                    contentRange' = (if ranged then Some (range_contentRange (js_string r) total') else None)
                in case createReadStream fs filename start end' of
                     StreamThrows x \<Rightarrow> Inl (Uncaught x)
                   | StreamError err \<Rightarrow> Inl (error_sys err (''Can't create file '' @ sys_string err))
                   | StreamOpen bytes \<Rightarrow>
                       Inr \<lparr> stream = ByteStream bytes,
                             contentType = Some (computed_contentType l co filename),
                             container = False, contentRange = contentRange',
                             chunksize = chunksize' \<rparr>))"

definition exists :: "ldp \<Rightarrow> collaborators \<Rightarrow> filesystem \<Rightarrow> string \<Rightarrow> string \<Rightarrow> error + get_result" where
  "exists l co fs host reqPath =
     get l co fs \<lparr> hostname = host, path = reqPath, baseUri = None, includeBody = False,
                   possibleRDFType = None, rangeHeader = None \<rparr>"

text \<open>
  \<open>graph(host, reqPath, baseUri, contentType, callback)\<close> and its two shorter call forms:
  with the callback in the place of \<open>contentType\<close> the content type is \<open>text/turtle\<close>;
  with the callback in the place of \<open>baseUri\<close> both stay undefined.
\<close>

datatype graph_call =
    GraphFull "string option" "string option"
  | GraphNoContentType "string option"
  | GraphNoBaseUri

fun graph_baseUri :: "graph_call \<Rightarrow> string option" where
  "graph_baseUri (GraphFull b c) = b"
| "graph_baseUri (GraphNoContentType b) = b"
| "graph_baseUri GraphNoBaseUri = None"

fun graph_contentType :: "graph_call \<Rightarrow> string option" where
  "graph_contentType (GraphFull b c) = c"
| "graph_contentType (GraphNoContentType b) = Some ''text/turtle''"
| "graph_contentType GraphNoBaseUri = None"

definition graph :: "ldp \<Rightarrow> collaborators \<Rightarrow> filesystem \<Rightarrow> string \<Rightarrow> string \<Rightarrow> graph_call \<Rightarrow> error + rdf_graph" where
  "graph l co fs host reqPath call =
     (let filename = request_filename l co host reqPath
      in case readFile fs filename of
           Inl err \<Rightarrow> Inl err
         | Inr body \<Rightarrow> parse co body (graph_baseUri call) (graph_contentType call))"

section \<open>getAvailablePath and post\<close>

text \<open>\<open>uuid.v1().split('-')[0] + '-'\<close>.\<close>

definition uuid_prefix :: "string \<Rightarrow> string" where
  "uuid_prefix u = js_string (js_index (split_on CHR ''-'' u) 0) @ ''-''"

text \<open>\<open>!err\<close> on what a callback received.\<close>

definition not_err :: "error + 'a \<Rightarrow> bool" where
  "not_err r = (case r of Inl err \<Rightarrow> False | Inr v \<Rightarrow> True)"

text \<open>
  The \<open>doWhilst\<close> loop of \<open>getAvailablePath\<close>: \<open>newPath\<close> is checked with \<open>exists\<close>, and
  \<open>exists = !err\<close>; when it holds, the next candidate is built from a new identifier and
  the loop runs again; when it does not, \<open>newPath\<close> is handed back. The loop has no bound,
  so the result is an \<open>option\<close>: \<open>None\<close> when the loop never ends.
  \<open>n\<close> counts the calls of \<open>uuid.v1()\<close> made so far; \<open>checked\<close> records, in order, the
  paths the existence check was run on.
\<close>

partial_function (option) doWhilst_exists ::
  "ldp \<Rightarrow> collaborators \<Rightarrow> filesystem \<Rightarrow> string \<Rightarrow> string \<Rightarrow> string \<Rightarrow> string \<Rightarrow> nat \<Rightarrow> string list
     \<Rightarrow> (string \<times> nat \<times> string list) option" where
  "doWhilst_exists l co fs host containerURI slug newPath n checked =
     (if not_err (exists l co fs host newPath) then
        doWhilst_exists l co fs host containerURI slug
          (path_join containerURI (uuid_prefix (uuid_v1 co n) @ slug)) (Suc n) (checked @ [newPath])
      else Some (newPath, n, checked @ [newPath]))"

declare doWhilst_exists.simps [code]

definition getAvailablePath ::
  "ldp \<Rightarrow> collaborators \<Rightarrow> filesystem \<Rightarrow> string \<Rightarrow> string \<Rightarrow> string option \<Rightarrow> nat
     \<Rightarrow> (string \<times> nat \<times> string list) option" where
  "getAvailablePath l co fs host containerURI slug n =
     (if \<not> str_truthy slug then
        doWhilst_exists l co fs host containerURI (uuid_v1 co n)
          (path_join containerURI (uuid_v1 co n)) (Suc n) []
      else
        doWhilst_exists l co fs host containerURI (js_string slug)
          (path_join containerURI (js_string slug)) n [])"

text \<open>
  The candidates of the loop, counted from the state it is entered in: candidate 0 is
  \<open>newPath\<close>, candidate \<open>i + 1\<close> is \<open>path.join(containerURI, id + slug)\<close> where \<open>id\<close> is the
  prefix of the identifier drawn after the collision of candidate \<open>i\<close>.
\<close>

definition loop_candidate :: "collaborators \<Rightarrow> string \<Rightarrow> string \<Rightarrow> string \<Rightarrow> nat \<Rightarrow> nat \<Rightarrow> string" where
  "loop_candidate co containerURI slug newPath n i =
     (case i of
        0 \<Rightarrow> newPath
      | Suc j \<Rightarrow> path_join containerURI (uuid_prefix (uuid_v1 co (n + j)) @ slug))"

text \<open>\<open>slug.match(/\/|\||:/)\<close>.\<close>

definition slug_match :: "string \<Rightarrow> bool" where
  "slug_match s = list_ex (\<lambda>c. c = CHR ''/'' \<or> c = CHR ''|'' \<or> c = CHR '':'') s"

text \<open>
  What a call of \<open>post\<close> does: the invocations of its callback in order (\<open>callback(err)\<close>
  is \<open>(Some err, None)\<close>, \<open>callback(null, path)\<close> is \<open>(None, Some path)\<close>), the exception
  that escaped it, the calls \<open>store.put(host, path, stream)\<close> it made, the filesystem it
  leaves, and the number of identifiers drawn.
\<close>

record post_outcome =
  callbacks :: "(error option \<times> string option) list"
  thrown :: "js_exception option"
  puts :: "(string \<times> string \<times> string) list"
  fs_after :: filesystem
  uuids_after :: nat

text \<open>
  \<open>ldp.put\<close>: the promise of \<open>store.put\<close> hands its rejection to the callback as the
  error, and resolves without a value. The result is the error the callback receives,
  if any, and the filesystem after the write.
\<close>

definition put :: "collaborators \<Rightarrow> filesystem \<Rightarrow> string \<Rightarrow> string \<Rightarrow> string \<Rightarrow> error option \<times> filesystem" where
  "put co fs host resourcePath body = store_put co fs host resourcePath body"

text \<open>The callback \<open>post\<close> passes to \<open>getAvailablePath\<close>.\<close>

definition post_create ::
  "ldp \<Rightarrow> collaborators \<Rightarrow> filesystem \<Rightarrow> nat \<Rightarrow> string \<Rightarrow> bool \<Rightarrow> string \<Rightarrow> string \<Rightarrow> post_outcome" where
  "post_create l co fs n hostname' isContainer body resourcePath =
     (let originalPath = resourcePath;
          resourcePath' = (if isContainer then path_join originalPath (suffixMeta l) else resourcePath);
          originalPath' = (if isContainer \<and> originalPath \<noteq> [] \<and> \<not> endsWith originalPath ''/''
                           then originalPath @ ''/'' else originalPath);
          written = put co fs hostname' resourcePath' body
      in \<lparr> callbacks = (case fst written of None \<Rightarrow> [] | Some err \<Rightarrow> [(Some err, None)])
                          @ [(None, Some originalPath')],
           thrown = None,
           puts = [(hostname', resourcePath', body)],
           fs_after = snd written,
           uuids_after = n \<rparr>)"

text \<open>The part of \<open>post\<close> after the slug is prepared; \<open>None\<close> when the allocation never ends.\<close>

definition post_allocate ::
  "ldp \<Rightarrow> collaborators \<Rightarrow> filesystem \<Rightarrow> nat \<Rightarrow> string \<Rightarrow> string \<Rightarrow> string option \<Rightarrow> string \<Rightarrow> bool
     \<Rightarrow> post_outcome option" where
  "post_allocate l co fs n hostname' containerPath slug body isContainer =
     (case getAvailablePath l co fs hostname' containerPath slug n of
        None \<Rightarrow> None
      | Some (resourcePath, n', checked) \<Rightarrow>
          Some (post_create l co fs n' hostname' isContainer body resourcePath))"

text \<open>
  The block \<open>prepare slug\<close> of \<open>post\<close>: a truthy slug is decoded, which may throw, and is
  rejected when the decoded slug holds \<open>/\<close>, \<open>|\<close> or \<open>:\<close>; a falsy slug is left as it is.
\<close>

datatype prepared_slug = SlugThrows js_exception | SlugRejected error | SlugReady "string option"

definition prepare_slug :: "string option \<Rightarrow> prepared_slug" where
  "prepare_slug slug =
     (if str_truthy slug then
        (case decodeURIComponent (js_string slug) of
           Inl x \<Rightarrow> SlugThrows x
         | Inr slug' \<Rightarrow>
             if slug_match slug' then
               SlugRejected (error_status 400 ''The name of new file POSTed may not contain : | or /'')
             else SlugReady (Some slug'))
      else SlugReady slug)"

definition post ::
  "ldp \<Rightarrow> collaborators \<Rightarrow> filesystem \<Rightarrow> nat \<Rightarrow> string \<Rightarrow> string \<Rightarrow> string option \<Rightarrow> string \<Rightarrow> bool
     \<Rightarrow> post_outcome option" where
  "post l co fs n hostname' containerPath slug body isContainer =
     (case prepare_slug slug of
        SlugThrows x \<Rightarrow>
          Some \<lparr> callbacks = [], thrown = Some x, puts = [], fs_after = fs, uuids_after = n \<rparr>
      | SlugRejected err \<Rightarrow>
          Some \<lparr> callbacks = [(Some err, None)], thrown = None, puts = [], fs_after = fs,
                 uuids_after = n \<rparr>
      | SlugReady slug' \<Rightarrow> post_allocate l co fs n hostname' containerPath slug' body isContainer)"

text \<open>
  The triples one directory entry adds to the listing: its description when it can be
  stat'ed, nothing otherwise.
\<close>

definition member_triples :: "collaborators \<Rightarrow> filesystem \<Rightarrow> string \<Rightarrow> string \<Rightarrow> string \<Rightarrow> rdf_graph" where
  "member_triples co fs reqUri filename file =
     (case fs_stat fs (path_join filename file) of
        Inl err \<Rightarrow> []
      | Inr st \<Rightarrow> memberDescription co (reqUri @ encodeURIComponent file) file st)"

definition can_stat :: "filesystem \<Rightarrow> string \<Rightarrow> bool" where
  "can_stat fs file = (case fs_stat fs file of Inl err \<Rightarrow> False | Inr st \<Rightarrow> True)"

text \<open>
  A file name of one segment: not empty, without a slash, and neither \<open>.\<close> nor \<open>..\<close>
  (the default metadata suffix \<open>.meta\<close> is one).
\<close>

definition plain_segment :: "string \<Rightarrow> bool" where
  "plain_segment s = (s \<noteq> [] \<and> CHR ''/'' \<notin> set s \<and> s \<noteq> ''.'' \<and> s \<noteq> ''..'')"

section \<open>An example server\<close>

text \<open>
  A small configuration on which the operations are evaluated below: the root
  \<open>/data/\<close>; a container \<open>/c/\<close> without a metadata file, holding \<open>a.ttl\<close>, \<open>b.jpg\<close>,
  \<open>hundred.bin\<close> (100 bytes) and an entry \<open>gone.txt\<close> that is listed but cannot be
  stat'ed; a container \<open>/bad/\<close> whose metadata file is not turtle; and a directory
  \<open>/locked/\<close> that may not be searched. A path below the file \<open>a.ttl\<close> fails with
  ENOTDIR, a path below \<open>/locked/\<close> with EACCES, every other path with ENOENT.
\<close>

definition hundred_bytes :: string where
  "hundred_bytes = concat (replicate 10 ''0123456789'')"

definition example_ldp :: ldp where
  "example_ldp = LDP ''/srv'' \<lparr> opt_root = Some ''/data'', opt_suffixAcl = None,
                               opt_suffixMeta = None, opt_idp = False \<rparr>"

definition example_fs :: filesystem where
  "example_fs =
     \<lparr> fs_stat = (\<lambda>f.
         if f = ''/data/c/'' \<or> f = ''/data/c'' \<or> f = ''/data/bad/'' \<or> f = ''/data/bad''
           then Inr \<lparr> isDirectory = True, fileSize = 4096, mtime = 7 \<rparr>
         else if f = ''/data/c/a.ttl'' then Inr \<lparr> isDirectory = False, fileSize = 12, mtime = 1 \<rparr>
         else if f = ''/data/c/b.jpg'' then Inr \<lparr> isDirectory = False, fileSize = 3, mtime = 2 \<rparr>
         else if f = ''/data/c/hundred.bin'' then Inr \<lparr> isDirectory = False, fileSize = 100, mtime = 3 \<rparr>
         else if f = ''/data/bad/.meta'' then Inr \<lparr> isDirectory = False, fileSize = 10, mtime = 4 \<rparr>
         else if take 13 f = ''/data/locked/'' then Inl (SysError EACCES ''EACCES: permission denied'')
         else if take 14 f = ''/data/c/a.ttl/'' then Inl (SysError ENOTDIR ''ENOTDIR: not a directory'')
         else Inl (SysError ENOENT ''ENOENT: no such file or directory'')),
       fs_readFile = (\<lambda>f.
         if f = ''/data/c/a.ttl'' then Inr ''<> a <#Doc> .''
         else if f = ''/data/bad/.meta'' then Inr ''not turtle''
         else if take 13 f = ''/data/locked/'' then Inl (SysError EACCES ''EACCES: permission denied'')
         else if take 14 f = ''/data/c/a.ttl/'' then Inl (SysError ENOTDIR ''ENOTDIR: not a directory'')
         else Inl (SysError ENOENT ''ENOENT: no such file or directory'')),
       fs_open = (\<lambda>f.
         if f = ''/data/c/a.ttl'' then Inr ''<> a <#Doc> .''
         else if f = ''/data/c/b.jpg'' then Inr ''JPG''
         else if f = ''/data/c/hundred.bin'' then Inr hundred_bytes
         else if f = ''/data/bad/.meta'' then Inr ''not turtle''
         else if take 13 f = ''/data/locked/'' then Inl (SysError EACCES ''EACCES: permission denied'')
         else if take 14 f = ''/data/c/a.ttl/'' then Inl (SysError ENOTDIR ''ENOTDIR: not a directory'')
         else Inl (SysError ENOENT ''ENOENT: no such file or directory'')) \<rparr>"

definition example_co :: collaborators where
  "example_co =
     \<lparr> uriToFilename = (\<lambda>uri r. path_join r uri),
       mime_lookup = (\<lambda>f.
         if endsWith f ''.jpg'' then Some ''image/jpeg''
         else if endsWith f ''.ttl'' then Some ''text/turtle''
         else None),
       uuid_v1 = (\<lambda>n. ''0000000'' @ show_nat n @ ''-b6a4-11e6-9598-0800200c9a66''),
       rdf_parse = (\<lambda>data g base ct.
         if data = [] then Some g
         else if data = ''<> a <#Doc> .'' then Some (g @ [(base, ''a'', ''#Doc'')])
         else None),
       serialize = (\<lambda>g base ct.
         Some (concat (map (\<lambda>(s, p, ob). ''<'' @ s @ ''> '' @ p @ '' '' @ ob @ '' . '') g))),
       parse = (\<lambda>body base ct.
         if body = ''<> a <#Doc> .'' then Inr [(js_string base, ''a'', ''#Doc'')]
         else Inl (error_status 500 ''Cannot parse'')),
       addContainerStats = (\<lambda>fs reqUri filename g. Inr (g @ [(reqUri, ''a'', ''ldp:Container'')])),
       readdir = (\<lambda>fs filename.
         if filename = ''/data/c/'' then Inr [''a.ttl'', ''gone.txt'', ''b.jpg'']
         else if filename = ''/data/bad/'' then Inr [''.meta'']
         else Inl (error_status 500 ''Could not read container'')),
       memberDescription = (\<lambda>fileUri file st. [(fileUri, ''size'', show_nat (fileSize st))]),
       store_put = (\<lambda>fs host p body.
         if take 8 p = ''/locked/'' then (Some (HTTPError IOError ''Cannot write''), fs)
         else (None, fs \<lparr> fs_open := (fs_open fs) (path_join ''/data/'' p := Inr body) \<rparr>)) \<rparr>"

section \<open>The slug allocator\<close>

lemma loop_candidate_0 [simp]: "loop_candidate co c slug newPath n 0 = newPath"
  by (simp add: loop_candidate_def)

lemma loop_candidate_shift:
  "loop_candidate co c slug (path_join c (uuid_prefix (uuid_v1 co n) @ slug)) (Suc n) i
     = loop_candidate co c slug newPath n (Suc i)"
  by (cases i) (simp_all add: loop_candidate_def)

lemma loop_candidate_shift_fun:
  "loop_candidate co c slug (path_join c (uuid_prefix (uuid_v1 co n) @ slug)) (Suc n)
     = (\<lambda>i. loop_candidate co c slug newPath n (Suc i))"
  by (rule ext) (rule loop_candidate_shift)

lemma map_candidates_shift:
  "newPath # map (loop_candidate co c slug (path_join c (uuid_prefix (uuid_v1 co n) @ slug)) (Suc n)) [0..<Suc k]
     = map (loop_candidate co c slug newPath n) [0..<Suc (Suc k)]"
proof -
  have "map (loop_candidate co c slug newPath n) [0..<Suc (Suc k)]
          = loop_candidate co c slug newPath n 0 # map (\<lambda>i. loop_candidate co c slug newPath n (Suc i)) [0..<Suc k]"
    by (simp only: map_upt_Suc)
  then show ?thesis
    by (simp only: loop_candidate_shift_fun [where newPath = newPath] loop_candidate_0)
qed

lemma doWhilst_exists_returns:
  assumes "\<forall>i<k. not_err (exists l co fs host (loop_candidate co c slug newPath n i))"
      and "\<not> not_err (exists l co fs host (loop_candidate co c slug newPath n k))"
  shows "doWhilst_exists l co fs host c slug newPath n checked
           = Some (loop_candidate co c slug newPath n k, n + k,
                   checked @ map (loop_candidate co c slug newPath n) [0..<Suc k])"
  using assms
proof (induction k arbitrary: newPath n checked)
  case 0
  from "0.prems" (2) have "\<not> not_err (exists l co fs host newPath)"
    by simp
  then show ?case
    by (subst doWhilst_exists.simps) (simp add: loop_candidate_def)
next
  case (Suc k)
  let ?next = "path_join c (uuid_prefix (uuid_v1 co n) @ slug)"
  have here: "not_err (exists l co fs host newPath)"
    using Suc.prems(1) [rule_format, of 0] by simp
  have "\<forall>i<k. not_err (exists l co fs host (loop_candidate co c slug ?next (Suc n) i))"
  proof (intro allI impI)
    fix i assume "i < k"
    then have "Suc i < Suc k" by simp
    from Suc.prems(1) [rule_format, OF this]
    show "not_err (exists l co fs host (loop_candidate co c slug ?next (Suc n) i))"
      by (simp only: loop_candidate_shift [where newPath = newPath])
  qed
  moreover have "\<not> not_err (exists l co fs host (loop_candidate co c slug ?next (Suc n) k))"
    unfolding loop_candidate_shift [where newPath = newPath] by (rule Suc.prems(2))
  ultimately have ih: "doWhilst_exists l co fs host c slug ?next (Suc n) (checked @ [newPath])
      = Some (loop_candidate co c slug ?next (Suc n) k, Suc n + k,
              (checked @ [newPath]) @ map (loop_candidate co c slug ?next (Suc n)) [0..<Suc k])"
    by (rule Suc.IH)
  have step: "doWhilst_exists l co fs host c slug newPath n checked
      = doWhilst_exists l co fs host c slug ?next (Suc n) (checked @ [newPath])"
    using here by (subst doWhilst_exists.simps) (simp only: if_True)
  have e1: "loop_candidate co c slug ?next (Suc n) k = loop_candidate co c slug newPath n (Suc k)"
    by (rule loop_candidate_shift)
  have e2: "Suc n + k = n + Suc k"
    by simp
  have e3: "(checked @ [newPath]) @ map (loop_candidate co c slug ?next (Suc n)) [0..<Suc k]
      = checked @ map (loop_candidate co c slug newPath n) [0..<Suc (Suc k)]"
    using map_candidates_shift [of newPath co c slug n k] by (simp only: append_assoc append_Cons append_Nil)
  show ?case
    by (simp only: step ih e1 e2 e3)
qed



lemma doWhilst_exists_sound:
  assumes "doWhilst_exists l co fs host c slug newPath n checked = Some y"
  shows "\<exists>k. (\<forall>i<k. not_err (exists l co fs host (loop_candidate co c slug newPath n i)))
             \<and> \<not> not_err (exists l co fs host (loop_candidate co c slug newPath n k))
             \<and> y = (loop_candidate co c slug newPath n k, n + k,
                    checked @ map (loop_candidate co c slug newPath n) [0..<Suc k])"
  using assms
proof (induction l co fs host c slug newPath n checked y
        rule: doWhilst_exists.raw_induct [rotated 1, consumes 1, case_names step])
  case (step loop l co fs host c slug newPath n checked y)
  note IH = step(1) and eq = step(2)
  show ?case
  proof (cases "not_err (exists l co fs host newPath)")
    case False
    with eq have "y = (newPath, n, checked @ [newPath])"
      by simp
    with False show ?thesis
      by (intro exI [of _ 0]) simp
  next
    case True
    let ?next = "path_join c (uuid_prefix (uuid_v1 co n) @ slug)"
    from True eq have "loop l co fs host c slug ?next (Suc n) (checked @ [newPath]) = Some y"
      by simp
    from IH [OF this] obtain k where
      k1: "\<forall>i<k. not_err (exists l co fs host (loop_candidate co c slug ?next (Suc n) i))" and
      k2: "\<not> not_err (exists l co fs host (loop_candidate co c slug ?next (Suc n) k))" and
      k3: "y = (loop_candidate co c slug ?next (Suc n) k, Suc n + k,
               (checked @ [newPath]) @ map (loop_candidate co c slug ?next (Suc n)) [0..<Suc k])"
      by blast
    have a: "\<forall>i<Suc k. not_err (exists l co fs host (loop_candidate co c slug newPath n i))"
    proof (intro allI impI)
      fix i assume less: "i < Suc k"
      show "not_err (exists l co fs host (loop_candidate co c slug newPath n i))"
      proof (cases i)
        case 0
        with True show ?thesis by simp
      next
        case (Suc j)
        with less have "j < k" by simp
        from k1 [rule_format, OF this] show ?thesis
          unfolding Suc loop_candidate_shift [where newPath = newPath] .
      qed
    qed
    have b: "\<not> not_err (exists l co fs host (loop_candidate co c slug newPath n (Suc k)))"
      using k2 unfolding loop_candidate_shift [where newPath = newPath] .
    have e1: "loop_candidate co c slug ?next (Suc n) k = loop_candidate co c slug newPath n (Suc k)"
      by (rule loop_candidate_shift)
    have e2: "Suc n + k = n + Suc k"
      by simp
    have e3: "(checked @ [newPath]) @ map (loop_candidate co c slug ?next (Suc n)) [0..<Suc k]
        = checked @ map (loop_candidate co c slug newPath n) [0..<Suc (Suc k)]"
      using map_candidates_shift [of newPath co c slug n k]
      by (simp only: append_assoc append_Cons append_Nil)
    have c: "y = (loop_candidate co c slug newPath n (Suc k), n + Suc k,
                  checked @ map (loop_candidate co c slug newPath n) [0..<Suc (Suc k)])"
      using k3 by (simp only: e1 e2 e3)
    from a b c show ?thesis by blast
  qed
qed

text \<open>
  The allocator hands back a path exactly when some candidate is found absent after the
  candidates before it collided; the result is that candidate, and the checks made are
  the candidates up to it.
\<close>

lemma getAvailablePath_characterised:
  "getAvailablePath l co fs host containerURI slug n = Some y \<longleftrightarrow>
     (\<exists>k. (\<forall>i<k. not_err (exists l co fs host
                (loop_candidate co containerURI (if str_truthy slug then js_string slug else uuid_v1 co n)
                   (path_join containerURI (if str_truthy slug then js_string slug else uuid_v1 co n))
                   (if str_truthy slug then n else Suc n) i)))
        \<and> \<not> not_err (exists l co fs host
                (loop_candidate co containerURI (if str_truthy slug then js_string slug else uuid_v1 co n)
                   (path_join containerURI (if str_truthy slug then js_string slug else uuid_v1 co n))
                   (if str_truthy slug then n else Suc n) k))
        \<and> y = (loop_candidate co containerURI (if str_truthy slug then js_string slug else uuid_v1 co n)
                   (path_join containerURI (if str_truthy slug then js_string slug else uuid_v1 co n))
                   (if str_truthy slug then n else Suc n) k,
                (if str_truthy slug then n else Suc n) + k,
                map (loop_candidate co containerURI (if str_truthy slug then js_string slug else uuid_v1 co n)
                   (path_join containerURI (if str_truthy slug then js_string slug else uuid_v1 co n))
                   (if str_truthy slug then n else Suc n)) [0..<Suc k]))"
proof (cases "str_truthy slug")
  case True
  then have def: "getAvailablePath l co fs host containerURI slug n
      = doWhilst_exists l co fs host containerURI (js_string slug)
          (path_join containerURI (js_string slug)) n []"
    by (simp add: getAvailablePath_def)
  show ?thesis
    unfolding def using True
    doWhilst_exists_sound [of l co fs host containerURI "js_string slug"
        "path_join containerURI (js_string slug)" n "[]" y]
    doWhilst_exists_returns [of _ l co fs host containerURI "js_string slug"
        "path_join containerURI (js_string slug)" n "[]"]
    by (simp only: if_True append_Nil) blast
next
  case False
  then have def: "getAvailablePath l co fs host containerURI slug n
      = doWhilst_exists l co fs host containerURI (uuid_v1 co n)
          (path_join containerURI (uuid_v1 co n)) (Suc n) []"
    by (simp add: getAvailablePath_def)
  show ?thesis
    unfolding def using False
    doWhilst_exists_sound [of l co fs host containerURI "uuid_v1 co n"
        "path_join containerURI (uuid_v1 co n)" "Suc n" "[]" y]
    doWhilst_exists_returns [of _ l co fs host containerURI "uuid_v1 co n"
        "path_join containerURI (uuid_v1 co n)" "Suc n" "[]"]
    by (simp only: if_False append_Nil) blast
qed



section \<open>Byte ranges\<close>

text \<open>
  Claim C2, at the range \<open>bytes=0-9\<close> of a 100-byte file. The bookkeeping is that of the
  range (\<open>Content-Range: bytes 0-9/100\<close>, chunk size 10), but the stream is the whole
  file, 100 bytes: \<open>ldp.createReadStream\<close> tests \<open>start && end\<close>, and the start 0 is falsy.
\<close>

theorem get_range_from_zero_streams_whole_file:
  "get example_ldp example_co example_fs
      \<lparr> hostname = ''h'', path = ''/c/hundred.bin'', baseUri = Some ''https://h'', includeBody = True,
        possibleRDFType = None, rangeHeader = Some ''bytes=0-9'' \<rparr>
    = Inr \<lparr> stream = ByteStream hundred_bytes, contentType = Some ''text/turtle'', container = False,
            contentRange = Some ''bytes 0-9/100'', chunksize = Some (Num 10) \<rparr>
   \<and> length hundred_bytes = 100"
  by code_simp

text \<open>
  The example of spec 8: the range \<open>bytes=10-19\<close> of the same file yields the ten bytes 10 to
  19 and \<open>Content-Range: bytes 10-19/100\<close>.
\<close>

lemma get_range_10_19_of_100:
  "get example_ldp example_co example_fs
      \<lparr> hostname = ''h'', path = ''/c/hundred.bin'', baseUri = Some ''https://h'', includeBody = True,
        possibleRDFType = None, rangeHeader = Some ''bytes=10-19'' \<rparr>
    = Inr \<lparr> stream = ByteStream ''0123456789'', contentType = Some ''text/turtle'', container = False,
            contentRange = Some ''bytes 10-19/100'', chunksize = Some (Num 10) \<rparr>"
  by code_simp

subsection \<open>Ranges in general\<close>

lemma digit_char_is_digit: "d < 10 \<Longrightarrow> is_digit (digit_char d) \<and> digit_value (digit_char d) = d"
proof -
  assume "d < 10"
  then have "d = 0 \<or> d = 1 \<or> d = 2 \<or> d = 3 \<or> d = 4 \<or> d = 5 \<or> d = 6 \<or> d = 7 \<or> d = 8 \<or> d = 9"
    by presburger
  then show ?thesis
    by (elim disjE) (simp_all add: is_digit_def digit_value_def digit_char_def)
qed

lemma show_nat_digits: "list_all is_digit (show_nat n) \<and> show_nat n \<noteq> []"
proof (induction n rule: show_nat.induct)
  case (1 n)
  show ?case
  proof (cases "n < 10")
    case True
    then show ?thesis
      by (subst (1 2) show_nat.simps) (simp add: digit_char_is_digit)
  next
    case False
    with 1 have "list_all is_digit (show_nat (n div 10))"
      by simp
    moreover have "is_digit (digit_char (n mod 10))"
      by (simp add: digit_char_is_digit)
    ultimately show ?thesis
      using False by (subst (1 2) show_nat.simps) simp
  qed
qed

lemma digits_value_snoc: "digits_value (ds @ [c]) = 10 * digits_value ds + digit_value c"
  by (simp add: digits_value_def)

lemma digits_value_show_nat: "digits_value (show_nat n) = n"
proof (induction n rule: show_nat.induct)
  case (1 n)
  show ?case
  proof (cases "n < 10")
    case True
    then show ?thesis
      by (subst show_nat.simps) (simp add: digits_value_def digit_char_is_digit)
  next
    case False
    with 1 have "digits_value (show_nat (n div 10)) = n div 10"
      by simp
    then show ?thesis
      using False
      by (subst show_nat.simps) (simp add: digits_value_snoc digit_char_is_digit)
  qed
qed

lemma skip_space_digit: "is_digit c \<Longrightarrow> skip_space (c # cs) = c # cs"
  by (auto simp: is_digit_def Let_def)

lemma parseInt_show_nat: "parseInt (show_nat n) = Num (int n)"
proof -
  obtain c cs where s: "show_nat n = c # cs"
    using show_nat_digits [of n] by (cases "show_nat n") auto
  with show_nat_digits [of n] have c: "is_digit c" and cs: "list_all is_digit cs"
    by simp_all
  from c have sk: "skip_space (c # cs) = c # cs"
    by (rule skip_space_digit)
  from c have sign: "c \<noteq> CHR ''-''" "c \<noteq> CHR ''+''"
    by (auto simp: is_digit_def)
  from c cs have tw: "takeWhile is_digit (c # cs) = c # cs"
    by (simp add: list_all_iff)
  have "parseInt (c # cs) = Num (int (digits_value (c # cs)))"
    unfolding parseInt_def sk using sign tw by (simp add: Let_def)
  then show ?thesis
    using digits_value_show_nat [of n] by (simp add: s)
qed

lemma show_nat_no_hyphen: "CHR ''-'' \<notin> set (show_nat n)"
proof
  assume "CHR ''-'' \<in> set (show_nat n)"
  with show_nat_digits [of n] have "is_digit CHR ''-''"
    by (simp add: list_all_iff)
  then show False
    by (simp add: is_digit_def)
qed

lemma split_on_absent: "sep \<notin> set s \<Longrightarrow> split_on sep s = [s]"
  by (induction s) auto

lemma split_on_first: "sep \<notin> set a \<Longrightarrow> split_on sep (a @ sep # b) = a # split_on sep b"
  by (induction a) auto

lemma range_parts:
  "split_on CHR ''-'' (remove_first ''bytes='' (''bytes='' @ show_nat s @ ''-'' @ show_nat e))
     = [show_nat s, show_nat e]"
proof -
  have "remove_first ''bytes='' (''bytes='' @ show_nat s @ ''-'' @ show_nat e)
          = show_nat s @ ''-'' @ show_nat e"
    by simp
  then show ?thesis
    using split_on_first [of "CHR ''-''" "show_nat s" "show_nat e"]
      split_on_absent [of "CHR ''-''" "show_nat e"] show_nat_no_hyphen
    by simp
qed

lemma range_start_show: "range_start (''bytes='' @ show_nat s @ ''-'' @ show_nat e) = Num (int s)"
  unfolding range_start_def range_parts by (simp add: js_index_def parseInt_show_nat)

lemma range_end_show: "range_end (''bytes='' @ show_nat s @ ''-'' @ show_nat e) total' = Num (int e)"
  unfolding range_end_def range_parts using show_nat_digits [of e]
  by (simp add: js_index_def parseInt_show_nat Let_def)

lemma get_ranged:
  assumes "includeBody options"
      and "fs_stat fs (request_filename l co (hostname options) (path options)) = Inr st"
      and "\<not> isDirectory st"
      and "rangeHeader options = Some r" and "r \<noteq> []"
  shows "get l co fs options =
      (case createReadStream fs (request_filename l co (hostname options) (path options))
              (Some (range_start r)) (Some (range_end r (fileSize st))) of
         StreamThrows x \<Rightarrow> Inl (Uncaught x)
       | StreamError err \<Rightarrow> Inl (error_sys err (''Can't create file '' @ sys_string err))
       | StreamOpen content \<Rightarrow>
           Inr \<lparr> stream = ByteStream content,
                 contentType = Some (computed_contentType l co
                                       (request_filename l co (hostname options) (path options))),
                 container = False,
                 contentRange = Some (range_contentRange r (fileSize st)),
                 chunksize = Some (range_chunksize r (fileSize st)) \<rparr>)"
  using assms by (simp add: get_def stat_def Let_def split: read_stream.split)

text \<open>
  A well-formed range \<open>bytes=s-e\<close> with \<open>s \<le> e\<close> inside a file that opens: the bookkeeping is
  always that of the range; the stream is the bytes \<open>s\<close> to \<open>e\<close> when \<open>s\<close> is positive, and
  the whole file when \<open>s\<close> is 0.
\<close>

lemma get_range_in_general:
  assumes "includeBody options"
      and "fs_stat fs (request_filename l co (hostname options) (path options)) = Inr st"
      and "\<not> isDirectory st"
      and "fs_open fs (request_filename l co (hostname options) (path options)) = Inr bytes"
      and "fileSize st = length bytes"
      and "s \<le> e" and "e < length bytes"
      and "rangeHeader options = Some (''bytes='' @ show_nat s @ ''-'' @ show_nat e)"
  shows "get l co fs options =
           Inr \<lparr> stream = ByteStream (if 0 < s then take (e - s + 1) (drop s bytes) else bytes),
                 contentType = Some (computed_contentType l co
                                       (request_filename l co (hostname options) (path options))),
                 container = False,
                 contentRange = Some (''bytes '' @ show_nat s @ ''-'' @ show_nat e @ ''/''
                                        @ show_nat (length bytes)),
                 chunksize = Some (Num (int (e - s + 1))) \<rparr>"
proof -
  let ?r = "''bytes='' @ show_nat s @ ''-'' @ show_nat e"
  let ?f = "request_filename l co (hostname options) (path options)"
  have nonempty: "?r \<noteq> []"
    by simp
  have chunk: "range_chunksize ?r (length bytes) = Num (int (e - s + 1))"
    unfolding range_chunksize_def range_start_show range_end_show using assms(6) by simp
  have cr: "range_contentRange ?r (length bytes)
              = ''bytes '' @ show_nat s @ ''-'' @ show_nat e @ ''/'' @ show_nat (length bytes)"
    unfolding range_contentRange_def range_start_show range_end_show by simp
  have open': "createReadStream fs ?f (Some (Num (int s))) (Some (Num (int e)))
                 = StreamOpen (if 0 < s then take (e - s + 1) (drop s bytes) else bytes)"
  proof (cases "0 < s")
    case True
    with assms(6) have "nat (int e - int s + 1) = e - s + 1"
      by simp
    with True assms(4,6) show ?thesis
      by (simp add: createReadStream_def fs_createReadStream_def)
  next
    case False
    with assms(4) show ?thesis
      by (simp add: createReadStream_def fs_createReadStream_def)
  qed
  from get_ranged [OF assms(1,2,3,8) nonempty] show ?thesis
    unfolding assms(5) range_start_show range_end_show open' chunk cr by simp
qed

section \<open>Containers\<close>

lemma listContainer_contentType_unused:
  "listContainer l co fs filename reqUri uri containerData t
     = listContainer l co fs filename reqUri uri containerData t'"
  by (simp add: listContainer_def)

lemma get_container_with_body:
  assumes "includeBody options"
      and "stat fs (request_filename l co (hostname options) (path options)) = Inr st"
      and "isDirectory st"
  shows "get l co fs options =
     (case listContainer l co fs (request_filename l co (hostname options) (path options))
             (js_string (baseUri options) @ path options) (baseUri options)
             (case readContainerMeta l fs (request_filename l co (hostname options) (path options)) of
                Inl err \<Rightarrow> [] | Inr data \<Rightarrow> data)
             (possibleRDFType options) of
        Inl err \<Rightarrow> Inl err
      | Inr data \<Rightarrow> Inr \<lparr> stream = ByteStream data, contentType = Some ''text/turtle'',
                          container = True, contentRange = None, chunksize = None \<rparr>)"
  using assms by (simp add: get_def Let_def)

text \<open>
  Claim C3, as amended. For a \<open>get\<close> with the body included whose target is a directory:
  the outcome is that of the container listing, an error being passed on and a listing
  being returned as a byte stream tagged \<open>text/turtle\<close> with the container flag set; and
  the outcome is the same whatever content type is requested.
\<close>

theorem get_container_with_body_is_turtle:
  assumes "includeBody options"
      and "stat fs (request_filename l co (hostname options) (path options)) = Inr st"
      and "isDirectory st"
  shows "get l co fs options =
     (case listContainer l co fs (request_filename l co (hostname options) (path options))
             (js_string (baseUri options) @ path options) (baseUri options)
             (case readContainerMeta l fs (request_filename l co (hostname options) (path options)) of
                Inl err \<Rightarrow> [] | Inr data \<Rightarrow> data)
             (possibleRDFType options) of
        Inl err \<Rightarrow> Inl err
      | Inr data \<Rightarrow> Inr \<lparr> stream = ByteStream data, contentType = Some ''text/turtle'',
                          container = True, contentRange = None, chunksize = None \<rparr>)
   \<and> get l co fs (options \<lparr> possibleRDFType := t \<rparr>) = get l co fs options"
proof
  show "get l co fs options =
     (case listContainer l co fs (request_filename l co (hostname options) (path options))
             (js_string (baseUri options) @ path options) (baseUri options)
             (case readContainerMeta l fs (request_filename l co (hostname options) (path options)) of
                Inl err \<Rightarrow> [] | Inr data \<Rightarrow> data)
             (possibleRDFType options) of
        Inl err \<Rightarrow> Inl err
      | Inr data \<Rightarrow> Inr \<lparr> stream = ByteStream data, contentType = Some ''text/turtle'',
                          container = True, contentRange = None, chunksize = None \<rparr>)"
    using assms by (rule get_container_with_body)
next
  have "get l co fs (options \<lparr> possibleRDFType := t \<rparr>) =
     (case listContainer l co fs (request_filename l co (hostname options) (path options))
             (js_string (baseUri options) @ path options) (baseUri options)
             (case readContainerMeta l fs (request_filename l co (hostname options) (path options)) of
                Inl err \<Rightarrow> [] | Inr data \<Rightarrow> data)
             t of
        Inl err \<Rightarrow> Inl err
      | Inr data \<Rightarrow> Inr \<lparr> stream = ByteStream data, contentType = Some ''text/turtle'',
                          container = True, contentRange = None, chunksize = None \<rparr>)"
    using assms get_container_with_body [of "options \<lparr> possibleRDFType := t \<rparr>" fs l co st]
    by simp
  also have "\<dots> = get l co fs options"
    using assms get_container_with_body [of options fs l co st]
      listContainer_contentType_unused [of l co fs _ _ _ _ t "possibleRDFType options"]
    by simp
  finally show "get l co fs (options \<lparr> possibleRDFType := t \<rparr>) = get l co fs options" .
qed

text \<open>
  Claim C3 as stated fails when the body is not included: on the container \<open>/c/\<close>, asked
  for \<open>application/ld+json\<close>, \<open>get\<close> returns the stats object tagged with the requested
  content type, not a turtle listing.
\<close>

theorem get_container_without_body_keeps_requested_type:
  "stat example_fs (request_filename example_ldp example_co ''h'' ''/c/'')
     = Inr \<lparr> isDirectory = True, fileSize = 4096, mtime = 7 \<rparr>
   \<and> get example_ldp example_co example_fs
      \<lparr> hostname = ''h'', path = ''/c/'', baseUri = Some ''https://h'', includeBody = False,
        possibleRDFType = Some ''application/ld+json'', rangeHeader = None \<rparr>
    = Inr \<lparr> stream = StatsObject \<lparr> isDirectory = True, fileSize = 4096, mtime = 7 \<rparr>,
            contentType = Some ''application/ld+json'', container = True,
            contentRange = None, chunksize = None \<rparr>"
  by code_simp

text \<open>
  The listing of the container \<open>/c/\<close> of the example, and the same listing under another
  requested content type.
\<close>

theorem get_container_example_listing:
  "get example_ldp example_co example_fs
      \<lparr> hostname = ''h'', path = ''/c/'', baseUri = Some ''https://h'', includeBody = True,
        possibleRDFType = Some ''application/ld+json'', rangeHeader = None \<rparr>
    = Inr \<lparr> stream = ByteStream
              ''<https://h/c/> a ldp:Container . <https://h/c/a.ttl> size 12 . <https://h/c/b.jpg> size 3 . '',
            contentType = Some ''text/turtle'', container = True,
            contentRange = None, chunksize = None \<rparr>
   \<and> get example_ldp example_co example_fs
      \<lparr> hostname = ''h'', path = ''/c/'', baseUri = Some ''https://h'', includeBody = True,
        possibleRDFType = Some ''text/html'', rangeHeader = None \<rparr>
    = get example_ldp example_co example_fs
      \<lparr> hostname = ''h'', path = ''/c/'', baseUri = Some ''https://h'', includeBody = True,
        possibleRDFType = Some ''application/ld+json'', rangeHeader = None \<rparr>"
proof -
  let ?options = "\<lparr> hostname = ''h'', path = ''/c/'', baseUri = Some ''https://h'', includeBody = True,
        possibleRDFType = Some ''application/ld+json'', rangeHeader = None \<rparr>"
  have a: "includeBody ?options"
    by simp
  have b: "stat example_fs (request_filename example_ldp example_co (hostname ?options) (path ?options))
             = Inr \<lparr> isDirectory = True, fileSize = 4096, mtime = 7 \<rparr>"
    by code_simp
  have c: "isDirectory \<lparr> isDirectory = True, fileSize = 4096, mtime = 7 \<rparr>"
    by simp
  have d: "listContainer example_ldp example_co example_fs
             (request_filename example_ldp example_co (hostname ?options) (path ?options))
             (js_string (baseUri ?options) @ path ?options) (baseUri ?options)
             (case readContainerMeta example_ldp example_fs
                     (request_filename example_ldp example_co (hostname ?options) (path ?options)) of
                Inl err \<Rightarrow> [] | Inr data \<Rightarrow> data)
             (possibleRDFType ?options)
           = Inr ''<https://h/c/> a ldp:Container . <https://h/c/a.ttl> size 12 . <https://h/c/b.jpg> size 3 . ''"
    by code_simp
  from get_container_with_body_is_turtle [OF a b c, of "Some ''text/html''"]
  show ?thesis
    unfolding d by simp
qed

section \<open>Container metadata\<close>

lemma listContainer_unparsable:
  assumes "rdf_parse co containerData [] reqUri ''text/turtle'' = None"
  shows "listContainer l co fs filename reqUri uri containerData t = Inl CannotParseContainer"
  using assms by (simp add: listContainer_def CannotParseContainer_def)

lemma listContainer_listed:
  assumes "rdf_parse co containerData [] reqUri ''text/turtle'' = Some seed"
      and "waterfall_listing l co fs filename reqUri uri seed = Inr g"
      and "serialize co g reqUri ''text/turtle'' = Some result"
  shows "listContainer l co fs filename reqUri uri containerData t = Inr result"
  using assms by (simp add: listContainer_def)

text \<open>
  Claim C4, as amended. For a \<open>get\<close> with the body included whose target is a directory.
  When reading the metadata file fails (the file is absent, or cannot be read), the
  failure is not reported: the listing is built as for an empty metadata file, and the
  request succeeds whenever that listing does, that is when the empty document parses to
  a seed graph, the statistics and the entries are added to it, and the graph
  serializes. When the metadata file is read and its content does not parse as turtle,
  the request fails with \<open>CannotParseContainer\<close>.
\<close>

theorem get_container_metadata_absent_or_malformed:
  assumes "includeBody options"
      and "stat fs (request_filename l co (hostname options) (path options)) = Inr st"
      and "isDirectory st"
  shows "(\<forall>err. readContainerMeta l fs (request_filename l co (hostname options) (path options)) = Inl err \<longrightarrow>
            get l co fs options =
              (case listContainer l co fs (request_filename l co (hostname options) (path options))
                      (js_string (baseUri options) @ path options) (baseUri options) []
                      (possibleRDFType options) of
                 Inl e \<Rightarrow> Inl e
               | Inr data \<Rightarrow> Inr \<lparr> stream = ByteStream data, contentType = Some ''text/turtle'',
                                   container = True, contentRange = None, chunksize = None \<rparr>))
       \<and> (\<forall>err seed g result.
            readContainerMeta l fs (request_filename l co (hostname options) (path options)) = Inl err
          \<and> rdf_parse co [] [] (js_string (baseUri options) @ path options) ''text/turtle'' = Some seed
          \<and> waterfall_listing l co fs (request_filename l co (hostname options) (path options))
                (js_string (baseUri options) @ path options) (baseUri options) seed = Inr g
          \<and> serialize co g (js_string (baseUri options) @ path options) ''text/turtle'' = Some result \<longrightarrow>
            get l co fs options =
              Inr \<lparr> stream = ByteStream result, contentType = Some ''text/turtle'',
                    container = True, contentRange = None, chunksize = None \<rparr>)
       \<and> (\<forall>data.
            readContainerMeta l fs (request_filename l co (hostname options) (path options)) = Inr data
          \<and> rdf_parse co data [] (js_string (baseUri options) @ path options) ''text/turtle'' = None \<longrightarrow>
            get l co fs options = Inl CannotParseContainer)"
proof (intro conjI allI impI)
  fix err
  assume "readContainerMeta l fs (request_filename l co (hostname options) (path options)) = Inl err"
  with get_container_with_body [OF assms]
  show "get l co fs options =
              (case listContainer l co fs (request_filename l co (hostname options) (path options))
                      (js_string (baseUri options) @ path options) (baseUri options) []
                      (possibleRDFType options) of
                 Inl e \<Rightarrow> Inl e
               | Inr data \<Rightarrow> Inr \<lparr> stream = ByteStream data, contentType = Some ''text/turtle'',
                                   container = True, contentRange = None, chunksize = None \<rparr>)"
    by simp
next
  fix err seed g result
  assume a: "readContainerMeta l fs (request_filename l co (hostname options) (path options)) = Inl err
          \<and> rdf_parse co [] [] (js_string (baseUri options) @ path options) ''text/turtle'' = Some seed
          \<and> waterfall_listing l co fs (request_filename l co (hostname options) (path options))
                (js_string (baseUri options) @ path options) (baseUri options) seed = Inr g
          \<and> serialize co g (js_string (baseUri options) @ path options) ''text/turtle'' = Some result"
  then have "listContainer l co fs (request_filename l co (hostname options) (path options))
                      (js_string (baseUri options) @ path options) (baseUri options) []
                      (possibleRDFType options) = Inr result"
    by (intro listContainer_listed [of co "[]" _ seed l fs _ _ g result]) simp_all
  with a get_container_with_body [OF assms]
  show "get l co fs options =
              Inr \<lparr> stream = ByteStream result, contentType = Some ''text/turtle'',
                    container = True, contentRange = None, chunksize = None \<rparr>"
    by simp
next
  fix data
  assume a: "readContainerMeta l fs (request_filename l co (hostname options) (path options)) = Inr data
          \<and> rdf_parse co data [] (js_string (baseUri options) @ path options) ''text/turtle'' = None"
  then have "listContainer l co fs (request_filename l co (hostname options) (path options))
                      (js_string (baseUri options) @ path options) (baseUri options) data
                      (possibleRDFType options) = Inl CannotParseContainer"
    by (intro listContainer_unparsable) simp
  with a get_container_with_body [OF assms]
  show "get l co fs options = Inl CannotParseContainer"
    by simp
qed

text \<open>
  Claim C4 as stated fails when the body is not included: the container \<open>/bad/\<close> has a
  metadata file that is not turtle, and \<open>get\<close> without the body still succeeds, with the
  stats of the directory; the metadata file is never read.
\<close>

theorem get_container_malformed_metadata_without_body:
  "readContainerMeta example_ldp example_fs (request_filename example_ldp example_co ''h'' ''/bad/'')
     = Inr ''not turtle''
   \<and> rdf_parse example_co ''not turtle'' [] ''https://h/bad/'' ''text/turtle'' = None
   \<and> get example_ldp example_co example_fs
      \<lparr> hostname = ''h'', path = ''/bad/'', baseUri = Some ''https://h'', includeBody = False,
        possibleRDFType = None, rangeHeader = None \<rparr>
    = Inr \<lparr> stream = StatsObject \<lparr> isDirectory = True, fileSize = 4096, mtime = 7 \<rparr>,
            contentType = None, container = True, contentRange = None, chunksize = None \<rparr>"
  by code_simp

text \<open>
  The two cases on the example: \<open>/c/\<close> has no metadata file and is listed; \<open>/bad/\<close> has a
  malformed one and the request fails.
\<close>

theorem get_container_example_metadata:
  "get example_ldp example_co example_fs
      \<lparr> hostname = ''h'', path = ''/c/'', baseUri = Some ''https://h'', includeBody = True,
        possibleRDFType = None, rangeHeader = None \<rparr>
    = Inr \<lparr> stream = ByteStream
              ''<https://h/c/> a ldp:Container . <https://h/c/a.ttl> size 12 . <https://h/c/b.jpg> size 3 . '',
            contentType = Some ''text/turtle'', container = True,
            contentRange = None, chunksize = None \<rparr>
   \<and> get example_ldp example_co example_fs
      \<lparr> hostname = ''h'', path = ''/bad/'', baseUri = Some ''https://h'', includeBody = True,
        possibleRDFType = None, rangeHeader = None \<rparr>
    = Inl CannotParseContainer"
proof -
  let ?c = "\<lparr> hostname = ''h'', path = ''/c/'', baseUri = Some ''https://h'', includeBody = True,
        possibleRDFType = None, rangeHeader = None \<rparr>"
  let ?bad = "\<lparr> hostname = ''h'', path = ''/bad/'', baseUri = Some ''https://h'', includeBody = True,
        possibleRDFType = None, rangeHeader = None \<rparr>"
  let ?st = "\<lparr> isDirectory = True, fileSize = 4096, mtime = 7 \<rparr>"
  have c1: "includeBody ?c" and c3: "isDirectory ?st"
    by simp_all
  have c2: "stat example_fs (request_filename example_ldp example_co (hostname ?c) (path ?c)) = Inr ?st"
    by code_simp
  have c4: "readContainerMeta example_ldp example_fs
              (request_filename example_ldp example_co (hostname ?c) (path ?c))
            = Inl (HTTPError NotFound ''Can't read meta file'')"
    by code_simp
  have c5: "rdf_parse example_co [] [] (js_string (baseUri ?c) @ path ?c) ''text/turtle'' = Some []"
    by code_simp
  have c6: "waterfall_listing example_ldp example_co example_fs
              (request_filename example_ldp example_co (hostname ?c) (path ?c))
              (js_string (baseUri ?c) @ path ?c) (baseUri ?c) []
            = Inr [(''https://h/c/'', ''a'', ''ldp:Container''),
                   (''https://h/c/a.ttl'', ''size'', ''12''), (''https://h/c/b.jpg'', ''size'', ''3'')]"
    by code_simp
  have c7: "serialize example_co [(''https://h/c/'', ''a'', ''ldp:Container''),
                   (''https://h/c/a.ttl'', ''size'', ''12''), (''https://h/c/b.jpg'', ''size'', ''3'')]
              (js_string (baseUri ?c) @ path ?c) ''text/turtle''
            = Some ''<https://h/c/> a ldp:Container . <https://h/c/a.ttl> size 12 . <https://h/c/b.jpg> size 3 . ''"
    by code_simp
  have b1: "includeBody ?bad"
    by simp
  have b2: "stat example_fs (request_filename example_ldp example_co (hostname ?bad) (path ?bad)) = Inr ?st"
    by code_simp
  have b4: "readContainerMeta example_ldp example_fs
              (request_filename example_ldp example_co (hostname ?bad) (path ?bad))
            = Inr ''not turtle''"
    by code_simp
  have b5: "rdf_parse example_co ''not turtle'' [] (js_string (baseUri ?bad) @ path ?bad) ''text/turtle'' = None"
    by code_simp
  from get_container_metadata_absent_or_malformed [OF c1 c2 c3] c4 c5 c6 c7
  have "get example_ldp example_co example_fs ?c
      = Inr \<lparr> stream = ByteStream
              ''<https://h/c/> a ldp:Container . <https://h/c/a.ttl> size 12 . <https://h/c/b.jpg> size 3 . '',
            contentType = Some ''text/turtle'', container = True,
            contentRange = None, chunksize = None \<rparr>"
    by blast
  moreover from get_container_metadata_absent_or_malformed [OF b1 b2 c3] b4 b5
  have "get example_ldp example_co example_fs ?bad = Inl CannotParseContainer"
    by blast
  ultimately show ?thesis
    by (rule conjI)
qed

section \<open>Members that cannot be described\<close>

lemma addFile_member_triples:
  "addFile l co fs resourceGraph reqUri (reqUri @ encodeURIComponent file) uri filename file
     = Inr (resourceGraph @ member_triples co fs reqUri filename file)"
  by (simp add: addFile_def member_triples_def split: sum.splits)

lemma each_addFile_member_triples:
  "each_addFile l co fs reqUri uri filename resourceGraph files
     = Inr (resourceGraph @ concat (map (member_triples co fs reqUri filename) files))"
proof (induction files arbitrary: resourceGraph)
  case Nil
  show ?case by simp
next
  case (Cons entry entries)
  show ?case
    by (simp add: addFile_member_triples Cons.IH)
qed

lemma member_triples_only_of_stated:
  "concat (map (member_triples co fs reqUri filename) files)
     = concat (map (member_triples co fs reqUri filename)
                 (filter (\<lambda>file. can_stat fs (path_join filename file)) files))"
  by (induction files) (simp_all add: member_triples_def can_stat_def split: sum.splits)

text \<open>
  Claim C5. When the metadata parses, the statistics are added and the directory is
  read, the listing does not fail on account of any entry: the graph that is serialized
  holds the statistics and the descriptions of exactly the entries that can be stat'ed,
  in the order of the directory, and the listing succeeds with its serialization (it
  fails only when the serialization does). An entry whose stat fails adds nothing.
\<close>

theorem listContainer_omits_members_that_fail:
  assumes "rdf_parse co containerData [] reqUri ''text/turtle'' = Some seed"
      and "addContainerStats co fs reqUri filename seed = Inr g"
      and "readdir co fs filename = Inr files"
  shows "listContainer l co fs filename reqUri uri containerData t =
           (case serialize co
                   (g @ concat (map (member_triples co fs reqUri filename)
                                  (filter (\<lambda>file. can_stat fs (path_join filename file)) files)))
                   reqUri ''text/turtle'' of
              None \<Rightarrow> Inl CannotSerializeContainer
            | Some result \<Rightarrow> Inr result)"
proof -
  have "waterfall_listing l co fs filename reqUri uri seed
          = Inr (g @ concat (map (member_triples co fs reqUri filename) files))"
    using assms(2,3) by (simp add: waterfall_listing_def each_addFile_member_triples)
  then show ?thesis
    using assms(1)
    unfolding CannotSerializeContainer_def member_triples_only_of_stated [symmetric]
    by (simp add: listContainer_def)
qed

text \<open>
  On the example: the entry \<open>gone.txt\<close> of \<open>/c/\<close> cannot be stat'ed; the listing succeeds
  and describes \<open>a.ttl\<close> and \<open>b.jpg\<close>.
\<close>

theorem listContainer_example_entry_gone:
  "readdir example_co example_fs ''/data/c/'' = Inr [''a.ttl'', ''gone.txt'', ''b.jpg'']
   \<and> \<not> can_stat example_fs (path_join ''/data/c/'' ''gone.txt'')
   \<and> listContainer example_ldp example_co example_fs ''/data/c/'' ''https://h/c/'' (Some ''https://h'') [] None
      = Inr ''<https://h/c/> a ldp:Container . <https://h/c/a.ttl> size 12 . <https://h/c/b.jpg> size 3 . ''"
proof -
  have a: "rdf_parse example_co [] [] ''https://h/c/'' ''text/turtle'' = Some []"
    by code_simp
  have b: "addContainerStats example_co example_fs ''https://h/c/'' ''/data/c/'' []
             = Inr [(''https://h/c/'', ''a'', ''ldp:Container'')]"
    by code_simp
  have c: "readdir example_co example_fs ''/data/c/'' = Inr [''a.ttl'', ''gone.txt'', ''b.jpg'']"
    by code_simp
  have d: "\<not> can_stat example_fs (path_join ''/data/c/'' ''gone.txt'')"
    by code_simp
  have e: "(case serialize example_co
                   ([(''https://h/c/'', ''a'', ''ldp:Container'')]
                      @ concat (map (member_triples example_co example_fs ''https://h/c/'' ''/data/c/'')
                                  (filter (\<lambda>file. can_stat example_fs (path_join ''/data/c/'' file))
                                     [''a.ttl'', ''gone.txt'', ''b.jpg''])))
                   ''https://h/c/'' ''text/turtle'' of
              None \<Rightarrow> Inl CannotSerializeContainer
            | Some result \<Rightarrow> Inr result)
           = Inr ''<https://h/c/> a ldp:Container . <https://h/c/a.ttl> size 12 . <https://h/c/b.jpg> size 3 . ''"
    by code_simp
  from listContainer_omits_members_that_fail [OF a b c, of example_ldp "Some ''https://h''" None] c d
  show ?thesis
    unfolding e by simp
qed

section \<open>Creating resources\<close>

lemma post_ready:
  assumes "prepare_slug slug = SlugReady slug'"
      and "getAvailablePath l co fs host containerPath slug' n = Some (p, n', checked)"
  shows "post l co fs n host containerPath slug body isContainer
           = Some (post_create l co fs n' host isContainer body p)"
  using assms by (simp add: post_def post_allocate_def)

subsection \<open>The path written and the path reported\<close>

lemma endsWith_slash: "endsWith s ''/'' \<longleftrightarrow> s \<noteq> [] \<and> last s = CHR ''/''"
proof (cases s rule: rev_cases)
  case Nil
  then show ?thesis by (simp add: endsWith_def)
next
  case (snoc xs x)
  then show ?thesis by (auto simp: endsWith_def)
qed

lemma split_on_nonempty: "split_on sep s \<noteq> []"
  by (induction s) (auto split: list.splits)

lemma split_on_append: "split_on sep (a @ sep # b) = split_on sep a @ split_on sep b"
proof (induction a)
  case Nil
  show ?case by simp
next
  case (Cons x a)
  obtain p ps where "split_on sep a = p # ps"
    using split_on_nonempty [of sep a] by (cases "split_on sep a") auto
  with Cons show ?case
    by simp
qed

lemma normalize_segments_snoc:
  assumes "plain_segment seg"
  shows "normalize_segments allowAboveRoot res (ps @ [seg])
           = normalize_segments allowAboveRoot res ps @ [seg]"
  using assms
  by (induction allowAboveRoot res ps rule: normalize_segments.induct)
     (auto simp: plain_segment_def)

lemma intercalate_snoc:
  "intercalate sep (xs @ [s]) = (if xs = [] then s else intercalate sep xs @ sep @ s)"
  by (induction sep xs rule: intercalate.induct) simp_all

lemma path_join_plain_segment:
  assumes "plain_segment seg"
  shows "\<not> endsWith (path_join a seg) ''/''"
proof -
  from assms have seg: "seg \<noteq> []" "CHR ''/'' \<notin> set seg"
    by (simp_all add: plain_segment_def)
  from seg(1) have "last seg \<in> set seg"
    by (rule last_in_set)
  with seg(2) have lastseg: "last seg \<noteq> CHR ''/''"
    by auto
  have norm: "\<not> endsWith (path_normalize (x @ seg)) ''/''"
    if x: "x = [] \<or> (\<exists>a'. x = a' @ ''/'')" for x
  proof -
    have segs: "\<exists>ys. split_on CHR ''/'' (x @ seg) = ys @ [seg]"
    proof (cases "x = []")
      case True
      with seg show ?thesis
        by (simp add: split_on_absent)
    next
      case False
      with x obtain a' where "x = a' @ ''/''" by blast
      then have "split_on CHR ''/'' (x @ seg) = split_on CHR ''/'' a' @ [seg]"
        using split_on_append [of "CHR ''/''" a' seg] seg by (simp add: split_on_absent)
      then show ?thesis by blast
    qed
    then obtain ys where ys: "split_on CHR ''/'' (x @ seg) = ys @ [seg]" by blast
    let ?abs = "hd (x @ seg) = CHR ''/''"
    let ?q = "intercalate ''/'' (normalize_segments (\<not> ?abs) [] (split_on CHR ''/'' (x @ seg)))"
    have q: "?q \<noteq> [] \<and> last ?q = last seg"
      unfolding ys normalize_segments_snoc [OF assms] intercalate_snoc using seg by simp
    have "path_normalize (x @ seg) = (if ?abs then ''/'' else []) @ ?q"
      using seg q lastseg by (simp add: path_normalize_def Let_def)
    with q lastseg show ?thesis
      by (simp add: endsWith_slash)
  qed
  show ?thesis
  proof (cases "a = []")
    case True
    with seg norm [of "[]"] show ?thesis
      by (simp add: path_join_def)
  next
    case False
    with seg norm [of "a @ ''/''"] show ?thesis
      by (simp add: path_join_def)
  qed
qed

lemma path_normalize_nonempty: "path_normalize p \<noteq> []"
  by (simp add: path_normalize_def Let_def)

lemma path_join_nonempty: "path_join a b \<noteq> []"
  by (simp add: path_join_def path_normalize_nonempty)

lemma getAvailablePath_nonempty:
  assumes "getAvailablePath l co fs host containerURI slug n = Some (p, n', checked)"
  shows "p \<noteq> []"
proof -
  from assms obtain k where
    "p = loop_candidate co containerURI (if str_truthy slug then js_string slug else uuid_v1 co n)
           (path_join containerURI (if str_truthy slug then js_string slug else uuid_v1 co n))
           (if str_truthy slug then n else Suc n) k"
    unfolding getAvailablePath_characterised by blast
  then show ?thesis
    by (cases k) (simp_all add: loop_candidate_def path_join_nonempty)
qed

lemma container_path_differs:
  assumes "plain_segment seg" and "p \<noteq> []"
  shows "path_join p seg \<noteq> (if p \<noteq> [] \<and> \<not> endsWith p ''/'' then p @ ''/'' else p)"
proof -
  have "endsWith (if p \<noteq> [] \<and> \<not> endsWith p ''/'' then p @ ''/'' else p) ''/''"
    using assms(2) by (simp add: endsWith_slash)
  with path_join_plain_segment [OF assms(1), of p] show ?thesis
    by auto
qed

text \<open>
  Claim C6. A \<open>post\<close> that creates a container, that is one whose slug passes the
  preparation and for which the allocator hands back the path \<open>p\<close>, does exactly this:
  it calls \<open>store.put\<close> once, on \<open>path.join(p, suffixMeta)\<close>, the metadata file inside the
  directory \<open>p\<close>, with the body posted, and the filesystem it leaves is the one that call
  leaves; it reports an error of that call to the callback; and then it hands the
  callback, with success, the container path: \<open>p\<close> written as a directory (with a slash
  appended when \<open>p\<close> does not end in one). The path reported is not the path written,
  whenever the metadata suffix is a file name of one segment.
\<close>

theorem post_container_writes_metadata_and_returns_container_path:
  assumes "prepare_slug slug = SlugReady slug'"
      and "getAvailablePath l co fs host containerPath slug' n = Some (p, n', checked)"
  shows "post l co fs n host containerPath slug body True
           = Some \<lparr> callbacks =
                      (case fst (store_put co fs host (path_join p (suffixMeta l)) body) of
                         None \<Rightarrow> []
                       | Some err \<Rightarrow> [(Some err, None)])
                      @ [(None, Some (if \<not> endsWith p ''/'' then p @ ''/'' else p))],
                    thrown = None,
                    puts = [(host, path_join p (suffixMeta l), body)],
                    fs_after = snd (store_put co fs host (path_join p (suffixMeta l)) body),
                    uuids_after = n' \<rparr>
         \<and> (plain_segment (suffixMeta l) \<longrightarrow>
               path_join p (suffixMeta l) \<noteq> (if \<not> endsWith p ''/'' then p @ ''/'' else p))"
proof -
  from assms(2) have p: "p \<noteq> []"
    by (rule getAvailablePath_nonempty)
  have differs: "plain_segment (suffixMeta l) \<longrightarrow>
      path_join p (suffixMeta l) \<noteq> (if \<not> endsWith p ''/'' then p @ ''/'' else p)"
    using container_path_differs [of "suffixMeta l" p] p by simp
  have "post l co fs n host containerPath slug body True
          = Some (post_create l co fs n' host True body p)"
    using assms by (rule post_ready)
  with p differs show ?thesis
    by (simp add: post_create_def put_def Let_def)
qed

text \<open>
  On the example: the container \<open>new\<close> posted to \<open>/c/\<close> is allocated \<open>/c/new\<close>; the body is
  written to \<open>/c/new/.meta\<close>, where the filesystem left behind has it; and the one
  callback reports \<open>/c/new/\<close>.
\<close>

theorem post_container_example:
  "post example_ldp example_co example_fs 0 ''h'' ''/c/'' (Some ''new'') ''body'' True
     = Some \<lparr> callbacks = [(None, Some ''/c/new/'')],
              thrown = None,
              puts = [(''h'', ''/c/new/.meta'', ''body'')],
              fs_after = example_fs \<lparr> fs_open := (fs_open example_fs) (''/data/c/new/.meta'' := Inr ''body'') \<rparr>,
              uuids_after = 0 \<rparr>
   \<and> fs_open (example_fs \<lparr> fs_open := (fs_open example_fs) (''/data/c/new/.meta'' := Inr ''body'') \<rparr>)
        ''/data/c/new/.meta'' = Inr ''body''
   \<and> fs_open example_fs ''/data/c/new/.meta'' = Inl (SysError ENOENT ''ENOENT: no such file or directory'')
   \<and> getAvailablePath example_ldp example_co example_fs ''h'' ''/c/'' (Some ''new'') 0
        = Some (''/c/new'', 0, [''/c/new''])"
proof -
  have a: "prepare_slug (Some ''new'') = SlugReady (Some ''new'')"
    by code_simp
  have b: "getAvailablePath example_ldp example_co example_fs ''h'' ''/c/'' (Some ''new'') 0
        = Some (''/c/new'', 0, [''/c/new''])"
    by code_simp
  have c: "path_join ''/c/new'' (suffixMeta example_ldp) = ''/c/new/.meta''"
    by code_simp
  have d: "(if \<not> endsWith ''/c/new'' ''/'' then ''/c/new'' @ ''/'' else ''/c/new'') = ''/c/new/''"
    by code_simp
  have e: "path_join ''/data/'' ''/c/new/.meta'' = ''/data/c/new/.meta''"
    by code_simp
  have f: "take 8 ''/c/new/.meta'' \<noteq> ''/locked/''"
    by code_simp
  have g: "store_put example_co example_fs ''h'' ''/c/new/.meta'' ''body''
             = (None, example_fs \<lparr> fs_open := (fs_open example_fs) (''/data/c/new/.meta'' := Inr ''body'') \<rparr>)"
    using f unfolding example_co_def e [symmetric] by simp
  have h: "fs_open example_fs ''/data/c/new/.meta'' = Inl (SysError ENOENT ''ENOENT: no such file or directory'')"
    by code_simp
  from post_container_writes_metadata_and_returns_container_path [OF a b, of "''body''"]
  have "post example_ldp example_co example_fs 0 ''h'' ''/c/'' (Some ''new'') ''body'' True
     = Some \<lparr> callbacks = [(None, Some ''/c/new/'')],
              thrown = None,
              puts = [(''h'', ''/c/new/.meta'', ''body'')],
              fs_after = example_fs \<lparr> fs_open := (fs_open example_fs) (''/data/c/new/.meta'' := Inr ''body'') \<rparr>,
              uuids_after = 0 \<rparr>"
    unfolding c d g by simp
  moreover
  have "fs_open (example_fs \<lparr> fs_open := (fs_open example_fs) (''/data/c/new/.meta'' := Inr ''body'') \<rparr>)
        ''/data/c/new/.meta'' = Inr ''body''"
    by simp
  ultimately show ?thesis
    using h b by (intro conjI)
qed

subsection \<open>Writes that fail\<close>

text \<open>
  Claim C10. When \<open>store.put\<close> fails with \<open>err\<close>, the callback of \<open>post\<close> is invoked twice:
  first with the error, then with success and the created path.
\<close>

theorem post_failed_write_calls_back_twice:
  assumes "prepare_slug slug = SlugReady slug'"
      and "getAvailablePath l co fs host containerPath slug' n = Some (p, n', checked)"
      and "store_put co fs host (if isContainer then path_join p (suffixMeta l) else p) body = (Some err, fs')"
  shows "\<exists>out. post l co fs n host containerPath slug body isContainer = Some out
           \<and> callbacks out =
                [(Some err, None),
                 (None, Some (if isContainer \<and> p \<noteq> [] \<and> \<not> endsWith p ''/'' then p @ ''/'' else p))]"
  using post_ready [OF assms(1,2), of body isContainer] assms(3)
  by (simp add: post_create_def put_def Let_def)

text \<open>
  On the example: a write under \<open>/locked/\<close> fails, and the caller is told both.
\<close>

theorem post_failed_write_example:
  "\<exists>out. post example_ldp example_co example_fs 0 ''h'' ''/locked/'' (Some ''new'') ''body'' False = Some out
     \<and> callbacks out = [(Some (HTTPError IOError ''Cannot write''), None), (None, Some ''/locked/new'')]"
proof -
  have a: "prepare_slug (Some ''new'') = SlugReady (Some ''new'')"
    by code_simp
  have b: "getAvailablePath example_ldp example_co example_fs ''h'' ''/locked/'' (Some ''new'') 0
        = Some (''/locked/new'', 0, [''/locked/new''])"
    by code_simp
  have c: "store_put example_co example_fs ''h'' (if False then path_join ''/locked/new'' (suffixMeta example_ldp) else ''/locked/new'') ''body''
        = (Some (HTTPError IOError ''Cannot write''), example_fs)"
    by (simp add: example_co_def)
  from post_failed_write_calls_back_twice [OF a b c] show ?thesis
    by simp
qed

subsection \<open>Slugs with reserved characters\<close>

lemma slug_match_Cons: "slug_match (c # cs) \<longleftrightarrow> c = CHR ''/'' \<or> c = CHR ''|'' \<or> c = CHR '':'' \<or> slug_match cs"
  by (simp add: slug_match_def)

lemma hex_digit_slash: "hex_digit CHR ''/'' = None"
  by code_simp
lemma hex_digit_bar: "hex_digit CHR ''|'' = None"
  by code_simp
lemma hex_digit_colon: "hex_digit CHR '':'' = None"
  by code_simp

lemma hex_digit_not_reserved:
  "hex_digit c = Some v \<Longrightarrow> c \<noteq> CHR ''/'' \<and> c \<noteq> CHR ''|'' \<and> c \<noteq> CHR '':''"
  using hex_digit_slash hex_digit_bar hex_digit_colon by (metis option.distinct(1))


lemma slug_match_append: "slug_match (xs @ ys) \<longleftrightarrow> slug_match xs \<or> slug_match ys"
  by (simp add: slug_match_def)

lemma escape_byte_keeps_reserved:
  assumes "escape_byte s = Some (b, rest)" and "slug_match s"
  shows "slug_match rest"
proof -
  from assms(1) obtain p h l r where s: "s = p # h # l # r"
    by (cases s rule: escape_byte.cases) simp_all
  with assms(1) have p: "p = CHR ''%''"
    by (simp split: if_splits)
  with s assms(1) obtain a where a: "hex_digit h = Some a"
    by (auto split: option.splits)
  with s p assms(1) obtain v where v: "hex_digit l = Some v" and r: "rest = r"
    by (auto split: option.splits)
  from hex_digit_not_reserved [OF a] hex_digit_not_reserved [OF v] p assms(2) s r
  show ?thesis
    by (simp add: slug_match_Cons)
qed

lemma continuation_bytes_keeps_reserved:
  "continuation_bytes k s = Some (bs, rest) \<Longrightarrow> slug_match s \<Longrightarrow> slug_match rest"
proof (induction k arbitrary: s bs rest)
  case 0
  then show ?case by simp
next
  case (Suc k)
  from Suc.prems(1) obtain b r where e: "escape_byte s = Some (b, r)"
    by (cases "escape_byte s") auto
  with Suc.prems(1) obtain bs' where k: "continuation_bytes k r = Some (bs', rest)"
    by (cases "continuation_bytes k r") (auto split: if_splits)
  from e Suc.prems(2) have "slug_match r"
    by (rule escape_byte_keeps_reserved)
  with k show ?case
    by (rule Suc.IH)
qed

text \<open>The decoding of an escape at the front of a string, case by case.\<close>

lemma decodeURIComponent_escape:
  assumes "decodeURIComponent (CHR ''%'' # cs) = r"
  shows "r = Inl URIError
       \<or> (\<exists>b rest n bs rest'.
             escape_byte (CHR ''%'' # cs) = Some (b, rest)
           \<and> utf8_length b = Some n
           \<and> continuation_bytes (n - 1) rest = Some (bs, rest')
           \<and> valid_utf8 (b # bs)
           \<and> r = (case decodeURIComponent rest' of
                     Inl e \<Rightarrow> Inl e
                   | Inr t \<Rightarrow> Inr (map char_of (b # bs) @ t)))"
proof (cases "escape_byte (CHR ''%'' # cs)")
  case None
  with assms show ?thesis by simp
next
  case (Some br)
  obtain b rest where br: "br = (b, rest)" by (cases br)
  show ?thesis
  proof (cases "utf8_length b")
    case None
    with Some br assms show ?thesis by simp
  next
    case n: (Some n)
    show ?thesis
    proof (cases "continuation_bytes (n - 1) rest")
      case None
      with Some br n assms show ?thesis by simp
    next
      case k: (Some bsr)
      obtain bs rest' where bsr: "bsr = (bs, rest')" by (cases bsr)
      show ?thesis
      proof (cases "valid_utf8 (b # bs)")
        case False
        with Some br n k bsr assms show ?thesis by simp
      next
        case True
        with Some br n k bsr assms show ?thesis by simp
      qed
    qed
  qed
qed


lemma decodeURIComponent_plain:
  "c \<noteq> CHR ''%'' \<Longrightarrow>
     decodeURIComponent (c # cs) = (case decodeURIComponent cs of Inl e \<Rightarrow> Inl e | Inr t \<Rightarrow> Inr (c # t))"
  by simp

lemma decodeURIComponent_throws_URIError:
  "decodeURIComponent s = Inl x \<Longrightarrow> x = URIError"
proof (induction "length s" arbitrary: s rule: less_induct)
  case less
  show ?case
  proof (cases s)
    case Nil
    with less.prems show ?thesis by simp
  next
    case (Cons c cs)
    show ?thesis
    proof (cases "c = CHR ''%''")
      case False
      with Cons less.prems have "decodeURIComponent cs = Inl x"
        by (cases "decodeURIComponent cs") (simp_all only: decodeURIComponent_plain, simp_all)
      moreover have "length cs < length s"
        using Cons by simp
      ultimately show ?thesis
        using less.hyps by blast
    next
      case True
      from decodeURIComponent_escape [of cs "Inl x"] less.prems Cons True
      consider "x = URIError"
        | b rest n bs rest' where "escape_byte (CHR ''%'' # cs) = Some (b, rest)"
            "continuation_bytes (n - 1) rest = Some (bs, rest')"
            "Inl x = (case decodeURIComponent rest' of
                     Inl e \<Rightarrow> Inl e
                   | Inr t \<Rightarrow> Inr (map char_of (b # bs) @ t))"
        by blast
      then show ?thesis
      proof cases
        case 1
        then show ?thesis .
      next
        case 2
        from 2(3) have "decodeURIComponent rest' = Inl x"
          by (cases "decodeURIComponent rest'") simp_all
        moreover have "length rest' < length s"
          using escape_byte_shorter [OF 2(1)] continuation_bytes_shorter [OF 2(2)] Cons by simp
        ultimately show ?thesis
          using less.hyps by blast
      qed
    qed
  qed
qed

lemma decodeURIComponent_keeps_reserved:
  "decodeURIComponent s = Inr d \<Longrightarrow> slug_match s \<Longrightarrow> slug_match d"
proof (induction "length s" arbitrary: s d rule: less_induct)
  case less
  show ?case
  proof (cases s)
    case Nil
    with less.prems show ?thesis by simp
  next
    case (Cons c cs)
    show ?thesis
    proof (cases "c = CHR ''%''")
      case False
      with Cons less.prems(1) obtain t where t: "decodeURIComponent cs = Inr t" and d: "d = c # t"
        by (cases "decodeURIComponent cs") (simp_all only: decodeURIComponent_plain, simp_all)
      show ?thesis
      proof (cases "slug_match cs")
        case True
        moreover have "length cs < length s"
          using Cons by simp
        ultimately have "slug_match t"
          using less.hyps t by blast
        with d show ?thesis
          by (simp add: slug_match_Cons)
      next
        case False
        with less.prems(2) Cons d show ?thesis
          by (auto simp: slug_match_Cons)
      qed
    next
      case True
      from decodeURIComponent_escape [of cs "Inr d"] less.prems(1) Cons True
      obtain b rest n bs rest' where
        e: "escape_byte (CHR ''%'' # cs) = Some (b, rest)" and
        k: "continuation_bytes (n - 1) rest = Some (bs, rest')" and
        r: "Inr d = (case decodeURIComponent rest' of
                     Inl e \<Rightarrow> Inl e
                   | Inr t \<Rightarrow> Inr (map char_of (b # bs) @ t))"
        by blast
      from r obtain t where t: "decodeURIComponent rest' = Inr t" and d: "d = map char_of (b # bs) @ t"
        by (cases "decodeURIComponent rest'") simp_all
      from e less.prems(2) Cons True have "slug_match rest"
        by (intro escape_byte_keeps_reserved [OF e]) simp
      with k have "slug_match rest'"
        by (rule continuation_bytes_keeps_reserved)
      moreover have "length rest' < length s"
        using escape_byte_shorter [OF e] continuation_bytes_shorter [OF k] Cons by simp
      ultimately have "slug_match t"
        using less.hyps t by blast
      with d show ?thesis
        by (simp only: slug_match_append) simp
    qed
  qed
qed

text \<open>
  A truthy slug that holds a reserved character never reaches the allocation: either its
  decoding throws, or the decoded slug is rejected with \<open>BadSlug\<close>; nothing is written
  and the filesystem is the one before the call.
\<close>

lemma post_reserved_slug:
  assumes "str_truthy slug" and "slug_match (js_string slug)"
  shows "post l co fs n host containerPath slug body isContainer
           = Some \<lparr> callbacks = [], thrown = Some URIError, puts = [], fs_after = fs, uuids_after = n \<rparr>
       \<or> post l co fs n host containerPath slug body isContainer
           = Some \<lparr> callbacks = [(Some BadSlug, None)], thrown = None, puts = [], fs_after = fs,
                    uuids_after = n \<rparr>"
proof (cases "decodeURIComponent (js_string slug)")
  case (Inl x)
  then have "x = URIError"
    by (rule decodeURIComponent_throws_URIError)
  with Inl assms(1) show ?thesis
    by (simp add: post_def prepare_slug_def)
next
  case (Inr d)
  from Inr assms(2) have "slug_match d"
    by (rule decodeURIComponent_keeps_reserved)
  with Inr assms(1) show ?thesis
    by (simp add: post_def prepare_slug_def BadSlug_def)
qed

text \<open>
  The example of spec 8: the slug \<open>a/b\<close> is rejected with \<open>BadSlug\<close>, and nothing is written.
\<close>

lemma post_bad_slug_example:
  "post example_ldp example_co example_fs 0 ''h'' ''/c/'' (Some ''a/b'') ''body'' False
     = Some \<lparr> callbacks = [(Some BadSlug, None)], thrown = None, puts = [],
              fs_after = example_fs, uuids_after = 0 \<rparr>"
proof -
  have "prepare_slug (Some ''a/b'') = SlugRejected BadSlug"
    by code_simp
  then show ?thesis
    by (simp add: post_def)
qed

text \<open>
  Claim C7, at the slug \<open>a/b%\<close>: it holds a path separator, but \<open>decodeURIComponent\<close>
  throws a URIError on the unfinished escape before the characters are checked. The
  exception escapes \<open>post\<close>, and the callback is never invoked, with \<open>BadSlug\<close> or
  otherwise. Nothing is allocated or written.
\<close>

theorem post_slug_with_malformed_escape_throws:
  "slug_match ''a/b%''
   \<and> post example_ldp example_co example_fs 0 ''h'' ''/c/'' (Some ''a/b%'') ''body'' False
       = Some \<lparr> callbacks = [], thrown = Some URIError, puts = [],
                fs_after = example_fs, uuids_after = 0 \<rparr>"
proof -
  have "slug_match ''a/b%''"
    by code_simp
  moreover have "prepare_slug (Some ''a/b%'') = SlugThrows URIError"
    by code_simp
  ultimately show ?thesis
    by (simp add: post_def)
qed

section \<open>Targets that do not exist\<close>

lemma get_stat_fails:
  assumes "fs_stat fs (request_filename l co (hostname options) (path options)) = Inl err"
  shows "get l co fs options
           = Inl (HTTPError NotFound
                    (''Can't find file requested: ''
                       @ request_filename l co (hostname options) (path options)))"
  using assms by (simp add: get_def stat_def error_sys_def Let_def)

lemma get_without_body:
  assumes "fs_stat fs (request_filename l co (hostname options) (path options)) = Inr st"
      and "\<not> includeBody options"
  shows "get l co fs options
           = Inr \<lparr> stream = StatsObject st, contentType = possibleRDFType options,
                   container = isDirectory st, contentRange = None, chunksize = None \<rparr>"
  using assms by (simp add: get_def stat_def Let_def)

lemma graph_read_fails:
  assumes "fs_readFile fs (request_filename l co host reqPath) = Inl err"
  shows "graph l co fs host reqPath call
           = Inl (HTTPError (if target_absent err then NotFound else IOError) ''Can't read file'')"
  using assms by (simp add: graph_def readFile_def error_sys_def)

lemma exists_stat_fails:
  assumes "fs_stat fs (request_filename l co host reqPath) = Inl err"
  shows "exists l co fs host reqPath
           = Inl (HTTPError NotFound
                    (''Can't find file requested: '' @ request_filename l co host reqPath))"
  using get_stat_fails [of fs l co "\<lparr> hostname = host, path = reqPath, baseUri = None,
        includeBody = False, possibleRDFType = None, rangeHeader = None \<rparr>" err] assms
  by (simp add: exists_def)

lemma exists_stat_succeeds:
  assumes "fs_stat fs (request_filename l co host reqPath) = Inr st"
  shows "exists l co fs host reqPath
           = Inr \<lparr> stream = StatsObject st, contentType = None,
                   container = isDirectory st, contentRange = None, chunksize = None \<rparr>"
  using get_without_body [of fs l co "\<lparr> hostname = host, path = reqPath, baseUri = None,
        includeBody = False, possibleRDFType = None, rangeHeader = None \<rparr>" st] assms
  by (simp add: exists_def)

lemma exists_not_err_iff:
  "not_err (exists l co fs host reqPath) \<longleftrightarrow> can_stat fs (request_filename l co host reqPath)"
proof (cases "fs_stat fs (request_filename l co host reqPath)")
  case (Inl err)
  then show ?thesis
    by (simp add: exists_stat_fails not_err_def can_stat_def)
next
  case (Inr st)
  then show ?thesis
    by (simp add: exists_stat_succeeds not_err_def can_stat_def)
qed

text \<open>The \<open>get\<close> behind \<open>exists\<close> always invokes its callback: no exception escapes it.\<close>

lemma exists_calls_back: "exists l co fs host reqPath \<noteq> Inl (Uncaught x)"
proof (cases "fs_stat fs (request_filename l co host reqPath)")
  case (Inl err)
  then show ?thesis
    by (simp add: exists_stat_fails)
next
  case (Inr st)
  then show ?thesis
    by (simp add: exists_stat_succeeds)
qed

text \<open>
  Claim C8. When the target does not exist, \<open>get\<close> and \<open>graph\<close> fail with \<open>NotFound\<close>:
  \<open>get\<close> whenever the stat of the target fails, which it does for every target that is
  not there, and \<open>graph\<close> whenever the read of the target fails because the target is
  absent. \<open>exists\<close> is the \<open>get\<close> of the path with the body suppressed, and the caller's
  test \<open>!err\<close> on its outcome is false when the stat of the target fails. The
  translation is the one stated: the test is false exactly when the outcome is a
  failure with \<open>NotFound\<close>, and true on every other outcome, which is the attributes of
  a target that can be stat'ed.
\<close>

theorem absent_target_is_NotFound_and_exists_is_false:
  "(\<forall>err. fs_stat fs (request_filename l co (hostname options) (path options)) = Inl err \<longrightarrow>
          (\<exists>e. get l co fs options = Inl e \<and> is_NotFound e))
   \<and> (\<forall>err. fs_readFile fs (request_filename l co host reqPath) = Inl err \<and> target_absent err \<longrightarrow>
          (\<exists>e. graph l co fs host reqPath call = Inl e \<and> is_NotFound e))
   \<and> exists l co fs host reqPath
        = get l co fs \<lparr> hostname = host, path = reqPath, baseUri = None, includeBody = False,
                        possibleRDFType = None, rangeHeader = None \<rparr>
   \<and> (\<forall>err. fs_stat fs (request_filename l co host reqPath) = Inl err \<longrightarrow>
          \<not> not_err (exists l co fs host reqPath))
   \<and> (\<forall>st. fs_stat fs (request_filename l co host reqPath) = Inr st \<longrightarrow>
          exists l co fs host reqPath
            = Inr \<lparr> stream = StatsObject st, contentType = None,
                    container = isDirectory st, contentRange = None, chunksize = None \<rparr>)
   \<and> (not_err (exists l co fs host reqPath)
        \<longleftrightarrow> \<not> (\<exists>e. exists l co fs host reqPath = Inl e \<and> is_NotFound e))"
proof (intro conjI allI impI)
  fix err
  assume "fs_stat fs (request_filename l co (hostname options) (path options)) = Inl err"
  then show "\<exists>e. get l co fs options = Inl e \<and> is_NotFound e"
    by (simp add: get_stat_fails)
next
  fix err
  assume "fs_readFile fs (request_filename l co host reqPath) = Inl err \<and> target_absent err"
  then show "\<exists>e. graph l co fs host reqPath call = Inl e \<and> is_NotFound e"
    by (simp add: graph_read_fails)
next
  show "exists l co fs host reqPath
        = get l co fs \<lparr> hostname = host, path = reqPath, baseUri = None, includeBody = False,
                        possibleRDFType = None, rangeHeader = None \<rparr>"
    by (simp add: exists_def)
next
  fix err
  assume "fs_stat fs (request_filename l co host reqPath) = Inl err"
  then show "\<not> not_err (exists l co fs host reqPath)"
    by (simp add: exists_stat_fails not_err_def)
next
  fix st
  assume "fs_stat fs (request_filename l co host reqPath) = Inr st"
  then show "exists l co fs host reqPath
            = Inr \<lparr> stream = StatsObject st, contentType = None,
                    container = isDirectory st, contentRange = None, chunksize = None \<rparr>"
    by (rule exists_stat_succeeds)
next
  show "not_err (exists l co fs host reqPath)
        \<longleftrightarrow> \<not> (\<exists>e. exists l co fs host reqPath = Inl e \<and> is_NotFound e)"
  proof (cases "fs_stat fs (request_filename l co host reqPath)")
    case (Inl err)
    then show ?thesis
      by (simp add: exists_stat_fails not_err_def)
  next
    case (Inr st)
    then show ?thesis
      by (simp add: exists_stat_succeeds not_err_def)
  qed
qed

text \<open>
  On the example: nothing is at \<open>/nothing\<close>; nothing is at \<open>/c/a.ttl/x\<close>, below a file;
  and \<open>/c/a.ttl\<close> exists.
\<close>

theorem absent_target_example:
  "(\<exists>e. get example_ldp example_co example_fs
           \<lparr> hostname = ''h'', path = ''/nothing'', baseUri = None, includeBody = True,
             possibleRDFType = None, rangeHeader = None \<rparr> = Inl e \<and> is_NotFound e)
   \<and> (\<exists>e. graph example_ldp example_co example_fs ''h'' ''/nothing'' GraphNoBaseUri = Inl e
           \<and> is_NotFound e)
   \<and> \<not> not_err (exists example_ldp example_co example_fs ''h'' ''/nothing'')
   \<and> (\<exists>e. exists example_ldp example_co example_fs ''h'' ''/nothing'' = Inl e \<and> is_NotFound e)
   \<and> (\<exists>e. get example_ldp example_co example_fs
           \<lparr> hostname = ''h'', path = ''/c/a.ttl/x'', baseUri = None, includeBody = True,
             possibleRDFType = None, rangeHeader = None \<rparr> = Inl e \<and> is_NotFound e)
   \<and> (\<exists>e. graph example_ldp example_co example_fs ''h'' ''/c/a.ttl/x'' GraphNoBaseUri = Inl e
           \<and> is_NotFound e)
   \<and> \<not> not_err (exists example_ldp example_co example_fs ''h'' ''/c/a.ttl/x'')
   \<and> not_err (exists example_ldp example_co example_fs ''h'' ''/c/a.ttl'')
   \<and> \<not> (\<exists>e. exists example_ldp example_co example_fs ''h'' ''/c/a.ttl'' = Inl e \<and> is_NotFound e)"
proof -
  let ?nothing = "\<lparr> hostname = ''h'', path = ''/nothing'', baseUri = None, includeBody = True,
             possibleRDFType = None, rangeHeader = None \<rparr>"
  let ?below = "\<lparr> hostname = ''h'', path = ''/c/a.ttl/x'', baseUri = None, includeBody = True,
             possibleRDFType = None, rangeHeader = None \<rparr>"
  let ?enoent = "SysError ENOENT ''ENOENT: no such file or directory''"
  let ?enotdir = "SysError ENOTDIR ''ENOTDIR: not a directory''"
  let ?st = "\<lparr> isDirectory = False, fileSize = 12, mtime = 1 \<rparr>"
  have a1: "fs_stat example_fs (request_filename example_ldp example_co (hostname ?nothing) (path ?nothing))
             = Inl ?enoent"
    by code_simp
  have a2: "fs_stat example_fs (request_filename example_ldp example_co ''h'' ''/nothing'') = Inl ?enoent"
    by code_simp
  have a3: "fs_readFile example_fs (request_filename example_ldp example_co ''h'' ''/nothing'')
             = Inl ?enoent"
    by code_simp
  have a4: "target_absent ?enoent"
    by (simp add: target_absent_def)
  have b1: "fs_stat example_fs (request_filename example_ldp example_co (hostname ?below) (path ?below))
             = Inl ?enotdir"
    by code_simp
  have b2: "fs_stat example_fs (request_filename example_ldp example_co ''h'' ''/c/a.ttl/x'') = Inl ?enotdir"
    by code_simp
  have b3: "fs_readFile example_fs (request_filename example_ldp example_co ''h'' ''/c/a.ttl/x'')
             = Inl ?enotdir"
    by code_simp
  have b4: "target_absent ?enotdir"
    by (simp add: target_absent_def)
  have d: "fs_stat example_fs (request_filename example_ldp example_co ''h'' ''/c/a.ttl'') = Inr ?st"
    by code_simp
  note t1 = absent_target_is_NotFound_and_exists_is_false
              [of example_fs example_ldp example_co "?nothing" "''h''" "''/nothing''" GraphNoBaseUri]
  note t2 = absent_target_is_NotFound_and_exists_is_false
              [of example_fs example_ldp example_co "?below" "''h''" "''/c/a.ttl/x''" GraphNoBaseUri]
  note t3 = absent_target_is_NotFound_and_exists_is_false
              [of example_fs example_ldp example_co "?nothing" "''h''" "''/c/a.ttl''" GraphNoBaseUri]
  from t1 a1 have n1: "\<exists>e. get example_ldp example_co example_fs ?nothing = Inl e \<and> is_NotFound e"
    by (elim conjE allE [of _ "?enoent"]) simp
  from t1 a3 a4
  have n2: "\<exists>e. graph example_ldp example_co example_fs ''h'' ''/nothing'' GraphNoBaseUri = Inl e
           \<and> is_NotFound e"
    by (elim conjE allE [of _ "?enoent"]) simp
  from t1 a2 have n3: "\<not> not_err (exists example_ldp example_co example_fs ''h'' ''/nothing'')"
    by (elim conjE allE [of _ "?enoent"]) simp
  from t1 n3
  have n4: "\<exists>e. exists example_ldp example_co example_fs ''h'' ''/nothing'' = Inl e \<and> is_NotFound e"
    by (elim conjE) simp
  from t2 b1 have m1: "\<exists>e. get example_ldp example_co example_fs ?below = Inl e \<and> is_NotFound e"
    by (elim conjE allE [of _ "?enotdir"]) simp
  from t2 b3 b4
  have m2: "\<exists>e. graph example_ldp example_co example_fs ''h'' ''/c/a.ttl/x'' GraphNoBaseUri = Inl e
           \<and> is_NotFound e"
    by (elim conjE allE [of _ "?enotdir"]) simp
  from t2 b2 have m3: "\<not> not_err (exists example_ldp example_co example_fs ''h'' ''/c/a.ttl/x'')"
    by (elim conjE allE [of _ "?enotdir"]) simp
  from t3 d
  have "exists example_ldp example_co example_fs ''h'' ''/c/a.ttl''
          = Inr \<lparr> stream = StatsObject ?st, contentType = None,
                  container = isDirectory ?st, contentRange = None, chunksize = None \<rparr>"
    by (elim conjE allE [of _ "?st"]) simp
  then have k1: "not_err (exists example_ldp example_co example_fs ''h'' ''/c/a.ttl'')"
    by (simp add: not_err_def)
  from t3 k1
  have k2: "\<not> (\<exists>e. exists example_ldp example_co example_fs ''h'' ''/c/a.ttl'' = Inl e \<and> is_NotFound e)"
    by (elim conjE) simp
  from n1 n2 n3 n4 m1 m2 m3 k1 k2 show ?thesis
    by (intro conjI)
qed

section \<open>The content type of a plain resource\<close>

lemma LDP_turtleExtensions:
  "turtleExtensions (LDP cwd opts) = [''.ttl'', suffixAcl (LDP cwd opts), suffixMeta (LDP cwd opts)]"
  by (simp add: LDP_def Let_def)

lemma get_plain_with_body:
  assumes "includeBody options"
      and "stat fs (request_filename l co (hostname options) (path options)) = Inr st"
      and "\<not> isDirectory st"
      and "get l co fs options = Inr r"
  shows "contentType r
           = Some (computed_contentType l co (request_filename l co (hostname options) (path options)))"
  using assms
  by (auto simp: get_def Let_def split: read_stream.splits)

lemma get_plain_opens:
  assumes "includeBody options"
      and "stat fs (request_filename l co (hostname options) (path options)) = Inr st"
      and "\<not> isDirectory st"
      and "\<not> str_truthy (rangeHeader options)"
      and "fs_open fs (request_filename l co (hostname options) (path options)) = Inr bytes"
  shows "get l co fs options
           = Inr \<lparr> stream = ByteStream bytes,
                   contentType = Some (computed_contentType l co
                                         (request_filename l co (hostname options) (path options))),
                   container = False, contentRange = None, chunksize = None \<rparr>"
  using assms
  by (simp add: get_def Let_def createReadStream_def fs_createReadStream_def)

text \<open>
  Claim C9. For a \<open>get\<close> with the body included on an existing resource that is not a
  directory, whenever a result is returned its content type is \<open>text/turtle\<close> if the file
  name ends in \<open>.ttl\<close>, the ACL suffix or the metadata suffix, whatever the mime table
  says; otherwise it is what \<open>mime.lookup\<close> finds for the file name, and
  \<open>DEFAULT_CONTENT_TYPE\<close> (which is \<open>text/turtle\<close>) when it finds nothing. A result is
  returned when the file opens (here shown for a request without a range).
\<close>

theorem get_plain_resource_content_type:
  assumes "includeBody options"
      and "stat fs (request_filename (LDP cwd opts) co (hostname options) (path options)) = Inr st"
      and "\<not> isDirectory st"
  shows "(\<forall>r. get (LDP cwd opts) co fs options = Inr r \<longrightarrow>
            contentType r = Some
              (if endsWith (request_filename (LDP cwd opts) co (hostname options) (path options)) ''.ttl''
                  \<or> endsWith (request_filename (LDP cwd opts) co (hostname options) (path options))
                       (suffixAcl (LDP cwd opts))
                  \<or> endsWith (request_filename (LDP cwd opts) co (hostname options) (path options))
                       (suffixMeta (LDP cwd opts))
               then ''text/turtle''
               else (case mime_lookup co (request_filename (LDP cwd opts) co (hostname options) (path options)) of
                       None \<Rightarrow> DEFAULT_CONTENT_TYPE
                     | Some t \<Rightarrow> if t = [] then DEFAULT_CONTENT_TYPE else t)))
       \<and> (\<forall>bytes. fs_open fs (request_filename (LDP cwd opts) co (hostname options) (path options)) = Inr bytes
                 \<and> \<not> str_truthy (rangeHeader options) \<longrightarrow>
            (\<exists>r. get (LDP cwd opts) co fs options = Inr r \<and> stream r = ByteStream bytes))
       \<and> DEFAULT_CONTENT_TYPE = ''text/turtle''"
proof (intro conjI allI impI)
  fix r
  assume "get (LDP cwd opts) co fs options = Inr r"
  from get_plain_with_body [OF assms this]
  show "contentType r = Some
              (if endsWith (request_filename (LDP cwd opts) co (hostname options) (path options)) ''.ttl''
                  \<or> endsWith (request_filename (LDP cwd opts) co (hostname options) (path options))
                       (suffixAcl (LDP cwd opts))
                  \<or> endsWith (request_filename (LDP cwd opts) co (hostname options) (path options))
                       (suffixMeta (LDP cwd opts))
               then ''text/turtle''
               else (case mime_lookup co (request_filename (LDP cwd opts) co (hostname options) (path options)) of
                       None \<Rightarrow> DEFAULT_CONTENT_TYPE
                     | Some t \<Rightarrow> if t = [] then DEFAULT_CONTENT_TYPE else t))"
    by (simp add: computed_contentType_def hasSuffix_def LDP_turtleExtensions str_or_def Let_def)
next
  fix bytes
  assume "fs_open fs (request_filename (LDP cwd opts) co (hostname options) (path options)) = Inr bytes
                 \<and> \<not> str_truthy (rangeHeader options)"
  with get_plain_opens [OF assms, of bytes]
  show "\<exists>r. get (LDP cwd opts) co fs options = Inr r \<and> stream r = ByteStream bytes"
    by simp
next
  show "DEFAULT_CONTENT_TYPE = ''text/turtle''"
    by (simp add: DEFAULT_CONTENT_TYPE_def)
qed

text \<open>
  On the example: an image, a metadata file, and a file whose extension the mime table
  does not know.
\<close>

theorem get_plain_resource_content_type_examples:
  "(\<exists>r. get example_ldp example_co example_fs
           \<lparr> hostname = ''h'', path = ''/c/b.jpg'', baseUri = None, includeBody = True,
             possibleRDFType = None, rangeHeader = None \<rparr> = Inr r
        \<and> contentType r = Some ''image/jpeg'')
   \<and> (\<exists>r. get example_ldp example_co example_fs
           \<lparr> hostname = ''h'', path = ''/bad/.meta'', baseUri = None, includeBody = True,
             possibleRDFType = None, rangeHeader = None \<rparr> = Inr r
        \<and> contentType r = Some ''text/turtle'')
   \<and> (\<exists>r. get example_ldp example_co example_fs
           \<lparr> hostname = ''h'', path = ''/c/hundred.bin'', baseUri = None, includeBody = True,
             possibleRDFType = None, rangeHeader = None \<rparr> = Inr r
        \<and> contentType r = Some DEFAULT_CONTENT_TYPE)"
proof -
  let ?jpg = "\<lparr> hostname = ''h'', path = ''/c/b.jpg'', baseUri = None, includeBody = True,
             possibleRDFType = None, rangeHeader = None \<rparr>"
  have i: "includeBody ?jpg"
    by simp
  have s: "stat example_fs (request_filename (LDP ''/srv'' \<lparr> opt_root = Some ''/data'', opt_suffixAcl = None,
                               opt_suffixMeta = None, opt_idp = False \<rparr>) example_co (hostname ?jpg) (path ?jpg))
             = Inr \<lparr> isDirectory = False, fileSize = 3, mtime = 2 \<rparr>"
    by code_simp
  have d: "\<not> isDirectory \<lparr> isDirectory = False, fileSize = 3, mtime = 2 \<rparr>"
    by simp
  have g: "get example_ldp example_co example_fs ?jpg
             = Inr \<lparr> stream = ByteStream ''JPG'', contentType = Some ''image/jpeg'', container = False,
                     contentRange = None, chunksize = None \<rparr>"
    by code_simp
  have v: "(if endsWith (request_filename example_ldp example_co (hostname ?jpg) (path ?jpg)) ''.ttl''
                  \<or> endsWith (request_filename example_ldp example_co (hostname ?jpg) (path ?jpg))
                       (suffixAcl example_ldp)
                  \<or> endsWith (request_filename example_ldp example_co (hostname ?jpg) (path ?jpg))
                       (suffixMeta example_ldp)
               then ''text/turtle''
               else (case mime_lookup example_co (request_filename example_ldp example_co (hostname ?jpg) (path ?jpg)) of
                       None \<Rightarrow> DEFAULT_CONTENT_TYPE
                     | Some t \<Rightarrow> if t = [] then DEFAULT_CONTENT_TYPE else t)) = ''image/jpeg''"
    by code_simp
  from get_plain_resource_content_type [OF i s d, folded example_ldp_def] g
  have "\<exists>r. get example_ldp example_co example_fs ?jpg = Inr r \<and> contentType r = Some ''image/jpeg''"
    unfolding v by simp
  moreover have "\<exists>r. get example_ldp example_co example_fs
           \<lparr> hostname = ''h'', path = ''/bad/.meta'', baseUri = None, includeBody = True,
             possibleRDFType = None, rangeHeader = None \<rparr> = Inr r
        \<and> contentType r = Some ''text/turtle''"
  proof -
    have "get example_ldp example_co example_fs
           \<lparr> hostname = ''h'', path = ''/bad/.meta'', baseUri = None, includeBody = True,
             possibleRDFType = None, rangeHeader = None \<rparr>
          = Inr \<lparr> stream = ByteStream ''not turtle'', contentType = Some ''text/turtle'', container = False,
                     contentRange = None, chunksize = None \<rparr>"
      by code_simp
    then show ?thesis by simp
  qed
  moreover have "\<exists>r. get example_ldp example_co example_fs
           \<lparr> hostname = ''h'', path = ''/c/hundred.bin'', baseUri = None, includeBody = True,
             possibleRDFType = None, rangeHeader = None \<rparr> = Inr r
        \<and> contentType r = Some DEFAULT_CONTENT_TYPE"
  proof -
    have "get example_ldp example_co example_fs
           \<lparr> hostname = ''h'', path = ''/c/hundred.bin'', baseUri = None, includeBody = True,
             possibleRDFType = None, rangeHeader = None \<rparr>
          = Inr \<lparr> stream = ByteStream hundred_bytes, contentType = Some DEFAULT_CONTENT_TYPE, container = False,
                     contentRange = None, chunksize = None \<rparr>"
      by code_simp
    then show ?thesis by simp
  qed
  ultimately show ?thesis
    by (intro conjI)
qed

end
